theory Spec2Isabelle
  imports Complex_Main "HOL-Library.AList"
begin

section \<open>Values exchanged with the model backend and the UI\<close>

text \<open>
  The Python code passes dictionaries, lists, strings and numbers around (decoded JSON,
  tool events, judge results). They are modelled by one datatype of values; a dictionary
  is an association list in insertion order, as a Python \<open>dict\<close> keeps it.
  A raised \<open>Exception\<close> is represented by its message \<open>str(e)\<close>.
\<close>

text \<open>
  A Python \<open>float\<close>: a finite value, an infinity or NaN. A finite value is the real
  number it denotes; comparisons of floats are exact, so they are the comparisons of these
  numbers, and every comparison with NaN is false.
\<close>

datatype pyfloat = Fin real | PosInf | NegInf | NaN

fun float_lt :: "pyfloat \<Rightarrow> pyfloat \<Rightarrow> bool" where
  "float_lt (Fin a) (Fin b) = (a < b)"
| "float_lt (Fin a) PosInf = True"
| "float_lt NegInf (Fin b) = True"
| "float_lt NegInf PosInf = True"
| "float_lt _ _ = False"

datatype json =
    JNull
  | JBool bool
  | JInt int
  | JFloat pyfloat
  | JStr string
  | JArr "json list"
  | JObj "(string \<times> json) list"

type_synonym exn = string

section \<open>Tool framework (tools/base.py, tools/registry.py, tools/runner.py)\<close>

text \<open>\<open>ToolContext\<close>: the shared context passed to every tool. The fields carry the prefix
  \<open>ctx_\<close>.\<close>

record tool_context =
  ctx_session_id :: string
  ctx_persona :: json
  ctx_memory_items :: "json list"
  ctx_session_summary :: "json option"
  ctx_recent_messages :: "(string \<times> string) list"
  ctx_user_message :: string
  ctx_assistant_final :: string
  ctx_ollama_base_url :: string
  ctx_ollama_model :: string

text \<open>
  \<open>ToolPlugin\<close>: a plugin has an \<open>id\<close>, a \<open>name\<close> and a \<open>run\<close> method. \<open>run\<close> has side
  effects (database writes, calls to the model backend), so it takes the world \<open>'w\<close> and
  returns the world it leaves behind, together with either the exception it raised or the
  list of events it returned (\<open>None\<close> when the method returns \<open>None\<close>).
\<close>

record 'w tool_plugin =
  tool_id :: string
  tool_name :: string
  run :: "tool_context \<Rightarrow> 'w \<Rightarrow> (exn + json list option) \<times> 'w"

text \<open>
  \<open>ToolsRegistry\<close>: a dictionary from tool name to plugin. \<open>register\<close> stores under
  \<open>tool.name\<close>; a name already present keeps its position and gets the new plugin.
\<close>

type_synonym 'w tools_registry = "(string \<times> 'w tool_plugin) list"

definition register :: "'w tools_registry \<Rightarrow> 'w tool_plugin \<Rightarrow> 'w tools_registry" where
  "register reg tool = AList.update (tool_name tool) tool reg"

definition list_tools :: "'w tools_registry \<Rightarrow> 'w tool_plugin list" where
  "list_tools reg = map snd reg"

text \<open>The two events the runner builds itself.\<close>

definition skipped_event :: "string \<Rightarrow> json" where
  "skipped_event tid =
     JObj [(''tool_id'', JStr tid), (''event'', JStr ''skipped''),
           (''title'', JStr ''Tool disabled''),
           (''message'', JStr (tid @ '' is disabled for this session.'')),
           (''data'', JObj [])]"

definition error_event :: "string \<Rightarrow> exn \<Rightarrow> json" where
  "error_event tid e =
     JObj [(''tool_id'', JStr tid), (''event'', JStr ''error''),
           (''title'', JStr ''Tool failed''),
           (''message'', JStr e),
           (''data'', JObj [])]"

text \<open>\<open>enabled_map.get(tool.id, True)\<close>\<close>

definition enabled_get :: "(string \<rightharpoonup> bool) \<Rightarrow> string \<Rightarrow> bool" where
  "enabled_get enabled_map tid = (case enabled_map tid of None \<Rightarrow> True | Some b \<Rightarrow> b)"

text \<open>
  \<open>run_tools\<close>: the \<open>for tool in registry.list_tools()\<close> loop, with the accumulated
  \<open>events\<close> list and the world threaded through the iterations.
\<close>

fun run_tools_loop ::
  "tool_context \<Rightarrow> (string \<rightharpoonup> bool) \<Rightarrow> 'w tool_plugin list \<Rightarrow> json list \<Rightarrow> 'w \<Rightarrow> json list \<times> 'w"
where
  "run_tools_loop ctx enabled_map [] events w = (events, w)"
| "run_tools_loop ctx enabled_map (tool # rest) events w =
     (if \<not> enabled_get enabled_map (tool_id tool) then
        run_tools_loop ctx enabled_map rest (events @ [skipped_event (tool_id tool)]) w
      else
        (case run tool ctx w of
           (Inr tool_events, w') \<Rightarrow>
             run_tools_loop ctx enabled_map rest
               (events @ (case tool_events of None \<Rightarrow> [] | Some es \<Rightarrow> es)) w'
         | (Inl e, w') \<Rightarrow>
             run_tools_loop ctx enabled_map rest (events @ [error_event (tool_id tool) e]) w'))"

definition run_tools ::
  "'w tools_registry \<Rightarrow> tool_context \<Rightarrow> (string \<rightharpoonup> bool) \<Rightarrow> 'w \<Rightarrow> json list \<times> 'w"
where
  "run_tools registry ctx enabled_map w =
     run_tools_loop ctx enabled_map (list_tools registry) [] w"

text \<open>Sample plugins used to run the definitions on concrete registries.\<close>

definition sample_ctx :: tool_context where
  "sample_ctx = \<lparr>ctx_session_id = ''s1'', ctx_persona = JObj [], ctx_memory_items = [],
     ctx_session_summary = None, ctx_recent_messages = [], ctx_user_message = ''hi'',
     ctx_assistant_final = ''hello'', ctx_ollama_base_url = ''http://ollama:11434'',
     ctx_ollama_model = ''llama3.2:3b''\<rparr>"

definition ok_tool :: "string \<Rightarrow> string list tool_plugin" where
  "ok_tool n = \<lparr>tool_id = n, tool_name = n,
     run = (\<lambda>ctx w. (Inr (Some [JObj [(''type'', JStr n)]]), w @ [n]))\<rparr>"

definition failing_tool :: "string \<Rightarrow> string list tool_plugin" where
  "failing_tool n = \<lparr>tool_id = n, tool_name = n,
     run = (\<lambda>ctx w. (Inl ''boom'', w @ [n]))\<rparr>"

definition sample_registry :: "string list tools_registry" where
  "sample_registry =
     register (register (register [] (ok_tool ''a'')) (failing_tool ''b'')) (ok_tool ''c'')"

section \<open>Persistence (db.py)\<close>

text \<open>
  Each table is the list of its rows in insertion order. A timestamp is the instant it
  denotes (the source stores \<open>datetime.utcnow().isoformat() + "Z"\<close> as text and orders by
  that text). \<open>open_loops\<close> is stored by the source as \<open>json.dumps\<close> of a list of strings
  and read back with \<open>json.loads\<close>; the row holds the list. The values of \<open>uuid4()\<close> and
  \<open>_utc_now()\<close> that a function reads are its first two arguments. A constraint of the
  schema that an \<open>INSERT\<close> violates raises \<open>sqlite3.IntegrityError\<close>.
\<close>

record session_row =
  ses_id :: string
  ses_persona_id :: string
  ses_created_at :: nat

record message_row =
  msg_id :: string
  msg_session_id :: string
  msg_role :: string
  msg_content :: string
  msg_created_at :: nat

record memory_row =
  mem_id :: string
  mem_scope :: string
  mem_session_id :: "string option"
  mem_key :: string
  mem_value :: string
  mem_confidence :: real
  mem_source_message_id :: "string option"
  mem_created_at :: nat
  mem_updated_at :: nat

record summary_row =
  sum_session_id :: string
  sum_summary :: string
  sum_open_loops :: "string list"
  sum_updated_at :: nat

record alert_row =
  alert_id :: string
  alert_scope :: string
  alert_session_id :: "string option"
  alert_title :: string
  alert_body :: string
  alert_due_at :: "string option"
  alert_status :: string
  alert_confidence :: real
  alert_source_message_id :: "string option"
  alert_created_at :: nat
  alert_updated_at :: nat

record tool_setting_row =
  ts_id :: string
  ts_scope :: string
  ts_session_id :: "string option"
  ts_tool_id :: string
  ts_enabled :: bool
  ts_created_at :: nat
  ts_updated_at :: nat

record db =
  tbl_sessions :: "session_row list"
  tbl_messages :: "message_row list"
  tbl_memory_items :: "memory_row list"
  tbl_session_summaries :: "summary_row list"
  tbl_alerts :: "alert_row list"
  tbl_tool_settings :: "tool_setting_row list"

text \<open>\<open>init_db\<close> on a fresh file: every table exists and is empty.\<close>

definition init_db :: db where
  "init_db = \<lparr>tbl_sessions = [], tbl_messages = [], tbl_memory_items = [],
     tbl_session_summaries = [], tbl_alerts = [], tbl_tool_settings = []\<rparr>"

text \<open>\<open>LIMIT ?\<close>: a negative limit means no limit in SQLite.\<close>

definition sql_limit :: "int \<Rightarrow> 'a list \<Rightarrow> 'a list" where
  "sql_limit n rows = (if n < 0 then rows else take (nat n) rows)"

definition get_session :: "string \<Rightarrow> db \<Rightarrow> session_row option" where
  "get_session sid d = find (\<lambda>r. ses_id r = sid) (tbl_sessions d)"

subsection \<open>Messages\<close>

definition add_message ::
  "string \<Rightarrow> nat \<Rightarrow> string \<Rightarrow> string \<Rightarrow> string \<Rightarrow> db \<Rightarrow> exn + (string \<times> db)"
where
  "add_message new_id now sid role content d =
     (if role \<noteq> ''user'' \<and> role \<noteq> ''assistant'' then
        Inl ''CHECK constraint failed: role''
      else if new_id \<in> set (map msg_id (tbl_messages d)) then
        Inl ''UNIQUE constraint failed: messages.id''
      else
        Inr (new_id,
             d\<lparr>tbl_messages := tbl_messages d @
                [\<lparr>msg_id = new_id, msg_session_id = sid, msg_role = role,
                  msg_content = content, msg_created_at = now\<rparr>]\<rparr>))"

text \<open>
  \<open>get_messages\<close>: \<open>WHERE session_id = ? ORDER BY created_at ASC LIMIT ?\<close>. Rows with
  equal \<open>created_at\<close> are kept in insertion order.
\<close>

definition get_messages :: "string \<Rightarrow> int \<Rightarrow> db \<Rightarrow> message_row list" where
  "get_messages sid limit d =
     sql_limit limit
       (sort_key msg_created_at (filter (\<lambda>r. msg_session_id r = sid) (tbl_messages d)))"

definition count_messages :: "string \<Rightarrow> db \<Rightarrow> int" where
  "count_messages sid d = int (length (filter (\<lambda>r. msg_session_id r = sid) (tbl_messages d)))"

subsection \<open>Memory items\<close>

text \<open>
  The \<open>SELECT\<close> of \<open>upsert_memory_item\<close>:
  \<open>WHERE scope = ? AND key = ? AND (session_id IS ? OR session_id = ?)\<close>. With a \<open>NULL\<close>
  parameter it matches the rows whose \<open>session_id\<close> is \<open>NULL\<close>, with a text parameter the
  rows holding that text: equality of the optional values.
\<close>

definition mem_matches :: "string \<Rightarrow> string \<Rightarrow> string option \<Rightarrow> memory_row \<Rightarrow> bool" where
  "mem_matches scope key sid r \<longleftrightarrow> mem_scope r = scope \<and> mem_key r = key \<and> mem_session_id r = sid"

definition upsert_memory_item ::
  "string \<Rightarrow> nat \<Rightarrow> string \<Rightarrow> string \<Rightarrow> string \<Rightarrow> real \<Rightarrow> string option \<Rightarrow> string option
     \<Rightarrow> db \<Rightarrow> exn + (string \<times> db)"
where
  "upsert_memory_item new_id now scope key val confidence sid source_message_id d =
     (case find (mem_matches scope key sid) (tbl_memory_items d) of
        Some existing \<Rightarrow>
          Inr (mem_id existing,
               d\<lparr>tbl_memory_items :=
                   map (\<lambda>r. if mem_id r = mem_id existing
                             then r\<lparr>mem_value := val, mem_confidence := confidence,
                                    mem_source_message_id := source_message_id,
                                    mem_updated_at := now\<rparr>
                             else r)
                       (tbl_memory_items d)\<rparr>)
      | None \<Rightarrow>
          (if scope \<noteq> ''global'' \<and> scope \<noteq> ''session'' then
             Inl ''CHECK constraint failed: scope''
           else if new_id \<in> set (map mem_id (tbl_memory_items d)) then
             Inl ''UNIQUE constraint failed: memory_items.id''
           else
             Inr (new_id,
                  d\<lparr>tbl_memory_items := tbl_memory_items d @
                     [\<lparr>mem_id = new_id, mem_scope = scope, mem_session_id = sid,
                       mem_key = key, mem_value = val, mem_confidence = confidence,
                       mem_source_message_id = source_message_id,
                       mem_created_at = now, mem_updated_at = now\<rparr>]\<rparr>)))"

definition list_memory_items :: "string \<Rightarrow> string option \<Rightarrow> int \<Rightarrow> db \<Rightarrow> memory_row list" where
  "list_memory_items scope sid limit d =
     (if scope = ''global'' then
        sql_limit limit
          (rev (sort_key mem_updated_at (filter (\<lambda>r. mem_scope r = ''global'') (tbl_memory_items d))))
      else
        (case sid of
           None \<Rightarrow> []
         | Some s \<Rightarrow>
             if s = [] then []
             else sql_limit limit
               (rev (sort_key mem_updated_at
                  (filter (\<lambda>r. mem_scope r = ''session'' \<and> mem_session_id r = Some s)
                     (tbl_memory_items d))))))"






subsection \<open>Session summaries\<close>

definition get_session_summary :: "string \<Rightarrow> db \<Rightarrow> summary_row option" where
  "get_session_summary sid d = find (\<lambda>r. sum_session_id r = sid) (tbl_session_summaries d)"

definition upsert_session_summary :: "nat \<Rightarrow> string \<Rightarrow> string \<Rightarrow> string list \<Rightarrow> db \<Rightarrow> db" where
  "upsert_session_summary now sid summary open_loops d =
     (case find (\<lambda>r. sum_session_id r = sid) (tbl_session_summaries d) of
        Some existing \<Rightarrow>
          d\<lparr>tbl_session_summaries :=
              map (\<lambda>r. if sum_session_id r = sid
                        then r\<lparr>sum_summary := summary, sum_open_loops := open_loops,
                               sum_updated_at := now\<rparr>
                        else r)
                  (tbl_session_summaries d)\<rparr>
      | None \<Rightarrow>
          d\<lparr>tbl_session_summaries := tbl_session_summaries d @
             [\<lparr>sum_session_id = sid, sum_summary = summary, sum_open_loops = open_loops,
               sum_updated_at = now\<rparr>]\<rparr>)"

subsection \<open>Alerts\<close>

definition create_alert ::
  "string \<Rightarrow> nat \<Rightarrow> string \<Rightarrow> string \<Rightarrow> string \<Rightarrow> string option \<Rightarrow> real \<Rightarrow> string option
     \<Rightarrow> string option \<Rightarrow> db \<Rightarrow> exn + (string \<times> db)"
where
  "create_alert new_id now scope title body due_at confidence sid source_message_id d =
     (if scope \<noteq> ''global'' \<and> scope \<noteq> ''session'' then
        Inl ''CHECK constraint failed: scope''
      else if new_id \<in> set (map alert_id (tbl_alerts d)) then
        Inl ''UNIQUE constraint failed: alerts.id''
      else
        Inr (new_id,
             d\<lparr>tbl_alerts := tbl_alerts d @
                [\<lparr>alert_id = new_id, alert_scope = scope, alert_session_id = sid,
                  alert_title = title, alert_body = body, alert_due_at = due_at,
                  alert_status = ''active'', alert_confidence = confidence,
                  alert_source_message_id = source_message_id,
                  alert_created_at = now, alert_updated_at = now\<rparr>]\<rparr>))"

text \<open>
  \<open>update_alert_status\<close>: any of the three status values is accepted, and the \<open>UPDATE\<close>
  does not look at the status the row has. The result is \<open>cur.rowcount > 0\<close>.
\<close>

definition update_alert_status :: "nat \<Rightarrow> string \<Rightarrow> string \<Rightarrow> db \<Rightarrow> exn + (bool \<times> db)" where
  "update_alert_status now aid status d =
     (if status \<noteq> ''active'' \<and> status \<noteq> ''done'' \<and> status \<noteq> ''cancelled'' then
        Inl ''Invalid status''
      else
        Inr (aid \<in> set (map alert_id (tbl_alerts d)),
             d\<lparr>tbl_alerts :=
                 map (\<lambda>r. if alert_id r = aid
                           then r\<lparr>alert_status := status, alert_updated_at := now\<rparr>
                           else r)
                     (tbl_alerts d)\<rparr>))"

text \<open>\<open>alert_service.py\<close>: the two callers of \<open>update_alert_status\<close>.\<close>

definition mark_alert_done :: "nat \<Rightarrow> string \<Rightarrow> db \<Rightarrow> exn + (bool \<times> db)" where
  "mark_alert_done now aid d = update_alert_status now aid ''done'' d"

definition mark_alert_cancelled :: "nat \<Rightarrow> string \<Rightarrow> db \<Rightarrow> exn + (bool \<times> db)" where
  "mark_alert_cancelled now aid d = update_alert_status now aid ''cancelled'' d"

text \<open>
  The operations on alerts that the application performs: the two endpoints
  \<open>/alerts/{id}/done\<close> and \<open>/alerts/{id}/cancel\<close>, and the creation of an alert by the
  alerts tool. An operation that raises leaves the database as it was.
\<close>

datatype alert_op =
    MarkDone nat string
  | MarkCancelled nat string
  | CreateAlert string nat string string string "string option" real "string option"

fun run_alert_op :: "alert_op \<Rightarrow> db \<Rightarrow> db" where
  "run_alert_op (MarkDone now aid) d =
     (case mark_alert_done now aid d of Inr (ok, d') \<Rightarrow> d' | Inl e \<Rightarrow> d)"
| "run_alert_op (MarkCancelled now aid) d =
     (case mark_alert_cancelled now aid d of Inr (ok, d') \<Rightarrow> d' | Inl e \<Rightarrow> d)"
| "run_alert_op (CreateAlert new_id now scope title body due_at confidence sid) d =
     (case create_alert new_id now scope title body due_at confidence sid None d of
        Inr (i, d') \<Rightarrow> d' | Inl e \<Rightarrow> d)"

fun run_alert_ops :: "alert_op list \<Rightarrow> db \<Rightarrow> db" where
  "run_alert_ops [] d = d"
| "run_alert_ops (op # ops) d = run_alert_ops ops (run_alert_op op d)"

definition terminal :: "string \<Rightarrow> bool" where
  "terminal status \<longleftrightarrow> status = ''done'' \<or> status = ''cancelled''"

text \<open>A database holding one alert, in a given status.\<close>

definition alert_demo :: "string \<Rightarrow> nat \<Rightarrow> db" where
  "alert_demo status upd = init_db\<lparr>tbl_alerts :=
     [\<lparr>alert_id = ''a1'', alert_scope = ''session'', alert_session_id = Some ''s1'',
       alert_title = ''Call mum'', alert_body = ''Call mum'',
       alert_due_at = Some ''2026-01-01T09:00:00+05:30'', alert_status = status,
       alert_confidence = 8 / 10, alert_source_message_id = None,
       alert_created_at = 1, alert_updated_at = upd\<rparr>]\<rparr>"

subsection \<open>Tool settings\<close>

text \<open>
  \<open>get_effective_tool_enabled_map\<close>: every requested tool starts enabled; the rows of
  scope \<open>global\<close> are applied, then the rows of scope \<open>session\<close> of this session; the
  result is restricted to the requested tool ids.
\<close>

definition apply_settings :: "tool_setting_row list \<Rightarrow> (string \<rightharpoonup> bool) \<Rightarrow> (string \<rightharpoonup> bool)" where
  "apply_settings rows enabled = foldl (\<lambda>m r. m(ts_tool_id r \<mapsto> ts_enabled r)) enabled rows"

definition get_effective_tool_enabled_map :: "string \<Rightarrow> string list \<Rightarrow> db \<Rightarrow> (string \<rightharpoonup> bool)" where
  "get_effective_tool_enabled_map sid tool_ids d =
     (let enabled0 = (\<lambda>tid. if tid \<in> set tool_ids then Some True else None);
          g = filter (\<lambda>r. ts_scope r = ''global'') (tbl_tool_settings d);
          enabled1 = apply_settings g enabled0;
          s = filter (\<lambda>r. ts_scope r = ''session'' \<and> ts_session_id r = Some sid)
                (tbl_tool_settings d);
          enabled2 = apply_settings s enabled1
      in (\<lambda>tid. if tid \<in> set tool_ids
                 then Some (case enabled2 tid of None \<Rightarrow> True | Some b \<Rightarrow> b)
                 else None))"

text \<open>An alert is settled when it exists and every row with its id has a terminal status.\<close>

definition alert_settled :: "string \<Rightarrow> db \<Rightarrow> bool" where
  "alert_settled aid d \<longleftrightarrow>
     aid \<in> set (map alert_id (tbl_alerts d))
     \<and> list_all (\<lambda>r. alert_id r \<noteq> aid \<or> terminal (alert_status r)) (tbl_alerts d)"

section \<open>Python built-ins used by the pipeline\<close>

text \<open>\<open>xs[-n:]\<close> for an integer \<open>n\<close>: the last \<open>n\<close> elements when \<open>n > 0\<close>, the whole list
  when \<open>n = 0\<close>, and the list without its first \<open>-n\<close> elements when \<open>n < 0\<close>.\<close>

definition py_last :: "int \<Rightarrow> 'a list \<Rightarrow> 'a list" where
  "py_last n xs = (if n > 0 then drop (length xs - nat n) xs else drop (nat (- n)) xs)"

text \<open>\<open>str(n)\<close> for an integer.\<close>

fun digits :: "nat \<Rightarrow> string" where
  "digits n =
     (if n < 10 then [''0123456789'' ! n]
      else digits (n div 10) @ [''0123456789'' ! (n mod 10)])"

declare digits.simps [simp del]

definition str_int :: "int \<Rightarrow> string" where
  "str_int i = (if i < 0 then CHR ''-'' # digits (nat (- i)) else digits (nat i))"

text \<open>\<open>str.strip()\<close>: a character stands for one code point below 256; the white space
  among them is what \<open>str.isspace\<close> accepts.\<close>

definition py_isspace :: "char \<Rightarrow> bool" where
  "py_isspace c \<longleftrightarrow>
     (let n = (of_char c :: nat)
      in (9 \<le> n \<and> n \<le> 13) \<or> (28 \<le> n \<and> n \<le> 32) \<or> n = 133 \<or> n = 160)"

definition py_strip :: "string \<Rightarrow> string" where
  "py_strip s = rev (dropWhile py_isspace (rev (dropWhile py_isspace s)))"

section \<open>Post-chat pipeline (pipeline.py)\<close>

text \<open>
  Lines 67 and 68 of \<open>run_post_chat_pipeline\<close>: the messages handed to the extraction,
  as pairs of role and content.
\<close>

definition recent_context :: "int \<Rightarrow> string \<Rightarrow> db \<Rightarrow> (string \<times> string) list" where
  "recent_context MX1_RECENT_MESSAGES sid d =
     py_last MX1_RECENT_MESSAGES
       (map (\<lambda>m. (msg_role m, msg_content m)) (get_messages sid 50 d))"

text \<open>A session of \<open>n\<close> messages, created one after the other.\<close>

definition demo_message :: "nat \<Rightarrow> message_row" where
  "demo_message i =
     \<lparr>msg_id = ''m'' @ digits i, msg_session_id = ''s1'',
      msg_role = (if even i then ''user'' else ''assistant''),
      msg_content = ''message '' @ digits i, msg_created_at = i\<rparr>"

definition long_session :: "nat \<Rightarrow> db" where
  "long_session n = init_db\<lparr>tbl_messages := map demo_message [0..<n]\<rparr>"

section \<open>Extraction validators (memory_extractor.py)\<close>

text \<open>\<open>d.get(k, default)\<close> on a decoded JSON object.\<close>

definition json_get :: "(string \<times> json) list \<Rightarrow> string \<Rightarrow> json \<Rightarrow> json" where
  "json_get obj k dflt = (case map_of obj k of None \<Rightarrow> dflt | Some v \<Rightarrow> v)"

text \<open>
  \<open>float(x)\<close> for a decoded JSON value; \<open>None\<close> stands for the \<open>TypeError\<close>,
  \<open>ValueError\<close> or \<open>OverflowError\<close> it raises. The parsing of a string is Python's own
  and is a parameter. An integer that rounds to \<open>2 ^ 1024\<close> or beyond overflows; the float
  of any other integer is taken to be the integer (it is the nearest float, and beyond
  \<open>2 ^ 53\<close> only its being above 1 or below 0 matters here).
\<close>

definition py_float :: "(string \<Rightarrow> pyfloat option) \<Rightarrow> json \<Rightarrow> pyfloat option" where
  "py_float float_of_str v =
     (case v of
        JFloat f \<Rightarrow> Some f
      | JInt i \<Rightarrow> if \<bar>i\<bar> \<ge> 2 ^ 1024 - 2 ^ 970 then None else Some (Fin (of_int i))
      | JBool b \<Rightarrow> Some (Fin (if b then 1 else 0))
      | JStr s \<Rightarrow> float_of_str s
      | _ \<Rightarrow> None)"

text \<open>
  \<open>_clamp01\<close>: \<open>max(0.0, min(1.0, float(x)))\<close>. \<open>min(1.0, x)\<close> is \<open>x\<close> when
  \<open>x < 1.0\<close> and \<open>1.0\<close> otherwise; \<open>max(0.0, y)\<close> is \<open>y\<close> when \<open>y > 0.0\<close> and \<open>0.0\<close>
  otherwise. The result is always finite.
\<close>

definition clamp01 :: "pyfloat \<Rightarrow> real" where
  "clamp01 x =
     (case (if float_lt x (Fin 1) then x else Fin 1) of
        Fin r \<Rightarrow> if 0 < r then r else 0
      | _ \<Rightarrow> 0)"

text \<open>\<open>re.fullmatch(r"[a-z0-9_]+", key)\<close>\<close>

definition key_pattern :: "string \<Rightarrow> bool" where
  "key_pattern key \<longleftrightarrow>
     key \<noteq> [] \<and> list_all (\<lambda>c. c \<in> set ''abcdefghijklmnopqrstuvwxyz0123456789_'') key"

record mx1_item =
  item_scope :: string
  item_key :: string
  item_value :: string
  item_confidence :: real

record summary_patch =
  sp_summary :: string
  sp_open_loops :: "string list"

text \<open>
  The checks of one candidate in the loop of \<open>validate_mx1_output\<close>, in the order of
  the source; \<open>None\<close> stands for \<open>continue\<close>.
\<close>

definition candidate_confidence :: "(string \<Rightarrow> pyfloat option) \<Rightarrow> (string \<times> json) list \<Rightarrow> real" where
  "candidate_confidence float_of_str it =
     (case py_float float_of_str (json_get it ''confidence'' (JFloat (Fin 0))) of
        Some f \<Rightarrow> clamp01 f
      | None \<Rightarrow> 0)"

definition validate_candidate ::
  "(string \<Rightarrow> pyfloat option) \<Rightarrow> pyfloat \<Rightarrow> string list \<Rightarrow> json \<Rightarrow> mx1_item option"
where
  "validate_candidate float_of_str confidence_threshold allow_scopes cand =
     (case cand of
        JObj it \<Rightarrow>
          (case json_get it ''scope'' JNull of
             JStr scope \<Rightarrow>
               if scope \<notin> set allow_scopes then None
               else
                 (case json_get it ''key'' JNull of
                    JStr key \<Rightarrow>
                      if \<not> (1 \<le> length key \<and> length key \<le> 64) then None
                      else if \<not> key_pattern key then None
                      else
                        (case json_get it ''value'' JNull of
                           JStr val \<Rightarrow>
                             if \<not> (1 \<le> length val \<and> length val \<le> 400) then None
                             else
                               (let conf_f = candidate_confidence float_of_str it
                                in if float_lt (Fin conf_f) confidence_threshold then None
                                   else Some \<lparr>item_scope = scope, item_key = key,
                                              item_value = py_strip val,
                                              item_confidence = conf_f\<rparr>)
                         | _ \<Rightarrow> None)
                  | _ \<Rightarrow> None)
           | _ \<Rightarrow> None)
      | _ \<Rightarrow> None)"

text \<open>The loop \<open>for it in items_in[:5]\<close>, collecting the accepted items.\<close>

fun validate_items ::
  "(string \<Rightarrow> pyfloat option) \<Rightarrow> pyfloat \<Rightarrow> string list \<Rightarrow> json list \<Rightarrow> mx1_item list"
where
  "validate_items float_of_str thr allow [] = []"
| "validate_items float_of_str thr allow (cand # rest) =
     (case validate_candidate float_of_str thr allow cand of
        None \<Rightarrow> validate_items float_of_str thr allow rest
      | Some item \<Rightarrow> item # validate_items float_of_str thr allow rest)"

fun normalize_open_loops :: "json list \<Rightarrow> string list" where
  "normalize_open_loops [] = []"
| "normalize_open_loops (JStr x # rest) =
     (if py_strip x \<noteq> [] then py_strip x # normalize_open_loops rest
      else normalize_open_loops rest)"
| "normalize_open_loops (_ # rest) = normalize_open_loops rest"

definition validate_mx1_output ::
  "(string \<Rightarrow> pyfloat option) \<Rightarrow> (string \<times> json) list \<Rightarrow> pyfloat \<Rightarrow> string list
     \<Rightarrow> mx1_item list \<times> summary_patch"
where
  "validate_mx1_output float_of_str data confidence_threshold allow_scopes =
     (let items_in = (case json_get data ''items'' (JArr []) of JArr xs \<Rightarrow> xs | _ \<Rightarrow> []);
          accepted = validate_items float_of_str confidence_threshold allow_scopes (take 5 items_in);
          sp = (case json_get data ''summary_patch'' (JObj []) of JObj ob \<Rightarrow> ob | _ \<Rightarrow> []);
          summary = (case json_get sp ''summary'' (JStr []) of JStr t \<Rightarrow> t | _ \<Rightarrow> []);
          open_loops = (case json_get sp ''open_loops'' (JArr []) of JArr xs \<Rightarrow> xs | _ \<Rightarrow> []);
          open_loops_norm = normalize_open_loops (take 10 open_loops)
      in (accepted, \<lparr>sp_summary = py_strip summary, sp_open_loops = open_loops_norm\<rparr>))"

text \<open>A candidate fact as the model backend returns it.\<close>

definition candidate :: "string \<Rightarrow> string \<Rightarrow> string \<Rightarrow> json \<Rightarrow> json" where
  "candidate scope key val conf =
     JObj [(''scope'', JStr scope), (''key'', JStr key), (''value'', JStr val),
           (''confidence'', conf)]"

text \<open>No string is accepted as a number: enough where confidences are JSON numbers.\<close>

definition no_float_of_str :: "string \<Rightarrow> pyfloat option" where
  "no_float_of_str s = None"

section \<open>The environment\<close>

text \<open>
  Everything the program reads from outside itself. The model backend, the clock and the
  id generator are impure: they act on an external state \<open>'x\<close> that the program cannot
  inspect, so that two calls with the same arguments may answer differently and the calls
  made can be counted. A call either raises (\<open>Inl\<close>, with the message of the exception)
  or returns. Prompt construction (files read from disk and string formatting), the
  functions of Python's library and the configuration read from environment variables are
  parameters as well.
\<close>

record 'x env =
  uuid4 :: "'x \<Rightarrow> string \<times> 'x"
  utc_now :: "'x \<Rightarrow> nat \<times> 'x"
  ollama_chat :: "string \<Rightarrow> (string \<times> string) list \<Rightarrow> string \<Rightarrow> 'x \<Rightarrow> (exn + string) \<times> 'x"
  judge_ollama_chat :: "string \<Rightarrow> string \<Rightarrow> 'x \<Rightarrow> (exn + string) \<times> 'x"
  run_mx1_ollama :: "string \<Rightarrow> 'x \<Rightarrow> (exn + string) \<times> 'x"
  extract_alerts :: "tool_context \<Rightarrow> 'x \<Rightarrow> (exn + json list) \<times> 'x"
  build_system_prompt :: "json \<Rightarrow> json list \<Rightarrow> string list \<Rightarrow> exn + string"
  judge_prompts :: "json \<Rightarrow> json list \<Rightarrow> string \<Rightarrow> string \<Rightarrow> exn + (string \<times> string)"
  build_mx1_prompt ::
    "json \<Rightarrow> summary_row option \<Rightarrow> (string \<times> string) list \<Rightarrow> bool \<Rightarrow> exn + string"
  json_loads :: "string \<Rightarrow> exn + json"
  extract_json_object :: "string \<Rightarrow> (string \<times> json) list option"
  py_repr :: "json \<Rightarrow> string"
  float_of_str :: "string \<Rightarrow> pyfloat option"
  JUDGE_ENABLED :: bool
  MX1_CONFIDENCE_THRESHOLD :: pyfloat
  MX1_RECENT_MESSAGES :: int
  SUMMARY_CADENCE :: int
  ALLOW_GLOBAL_WRITE :: bool

text \<open>Truth value of a decoded JSON value (\<open>if x\<close>, \<open>not x\<close>, \<open>x or y\<close>).\<close>

definition py_truthy :: "json \<Rightarrow> bool" where
  "py_truthy v =
     (case v of
        JNull \<Rightarrow> False
      | JBool b \<Rightarrow> b
      | JInt i \<Rightarrow> i \<noteq> 0
      | JFloat f \<Rightarrow> f \<noteq> Fin 0
      | JStr s \<Rightarrow> s \<noteq> []
      | JArr xs \<Rightarrow> xs \<noteq> []
      | JObj ob \<Rightarrow> ob \<noteq> [])"

text \<open>\<open>str(x)\<close>: a string is itself, anything else is printed by Python.\<close>

definition py_str :: "'x env \<Rightarrow> json \<Rightarrow> string" where
  "py_str E v = (case v of JStr s \<Rightarrow> s | _ \<Rightarrow> py_repr E v)"

text \<open>\<open>s.find(c)\<close> and \<open>s.rfind(c)\<close> for a single character: \<open>-1\<close> when absent.\<close>

definition str_find :: "char \<Rightarrow> string \<Rightarrow> int" where
  "str_find c s = (if c \<in> set s then int (length (takeWhile (\<lambda>x. x \<noteq> c) s)) else - 1)"

definition str_rfind :: "char \<Rightarrow> string \<Rightarrow> int" where
  "str_rfind c s =
     (if c \<in> set s then int (length s) - 1 - int (length (takeWhile (\<lambda>x. x \<noteq> c) (rev s)))
      else - 1)"

text \<open>\<open>s[a:b]\<close> for \<open>0 \<le> a\<close> and \<open>0 \<le> b\<close>.\<close>

definition str_slice :: "int \<Rightarrow> int \<Rightarrow> string \<Rightarrow> string" where
  "str_slice a b s = drop (nat a) (take (nat b) s)"

section \<open>Judge gate (agents/Judge/judge_agent.py)\<close>

record judge_result =
  jr_verdict :: string
  jr_feedback :: json
  jr_rewritten_response :: json
  jr_reason :: string
  jr_risk_tags :: "string list"

text \<open>The result of the \<open>except Exception as e\<close> branch.\<close>

definition judge_failed :: "exn \<Rightarrow> judge_result" where
  "judge_failed e =
     \<lparr>jr_verdict = ''PASS'', jr_feedback = JNull, jr_rewritten_response = JNull,
      jr_reason = ''judge_failed:'' @ e, jr_risk_tags = [''judge_error'']\<rparr>"

text \<open>
  The body of the \<open>try\<close> after the call of the backend: \<open>raw\<close> is the text returned. \<open>Inl\<close>
  is an exception raised inside the \<open>try\<close>.
\<close>

definition judge_parse :: "'x env \<Rightarrow> string \<Rightarrow> exn + judge_result" where
  "judge_parse E raw =
     (let raw_str = py_strip raw;
          start = str_find CHR ''{'' raw_str;
          end_idx = str_rfind CHR ''}'' raw_str
      in if start = - 1 \<or> end_idx = - 1 \<or> end_idx \<le> start then
           Inl (''Judge did not return JSON: '' @ take 200 raw_str)
         else
           (case json_loads E (str_slice start (end_idx + 1) raw_str) of
              Inl e \<Rightarrow> Inl e
            | Inr (JObj obj) \<Rightarrow>
                (let verdict0 =
                       (case json_get obj ''verdict'' (JStr ''PASS'') of
                          JStr v \<Rightarrow> if v = ''PASS'' \<or> v = ''REWRITE'' \<or> v = ''BLOCK'' then v
                                    else ''PASS''
                        | _ \<Rightarrow> ''PASS'');
                     rewritten0 = json_get obj ''rewritten_response'' JNull;
                     feedback0 = json_get obj ''feedback'' (JStr []);
                     rewritten = (if verdict0 = ''PASS'' then JNull else rewritten0);
                     feedback = (if verdict0 = ''PASS'' then JNull else feedback0);
                     verdict =
                       (if verdict0 = ''REWRITE'' \<and> \<not> py_truthy rewritten \<and> \<not> py_truthy feedback
                        then ''PASS'' else verdict0);
                     reason = json_get obj ''reason'' (JStr []);
                     risk_tags = (case json_get obj ''risk_tags'' (JArr []) of JArr ts \<Rightarrow> ts | _ \<Rightarrow> [])
                 in Inr \<lparr>jr_verdict = verdict, jr_feedback = feedback,
                         jr_rewritten_response = rewritten,
                         jr_reason = take 200 (py_str E reason),
                         jr_risk_tags = map (\<lambda>t. take 40 (py_str E t)) (take 10 risk_tags)\<rparr>)
            | Inr _ \<Rightarrow> Inl ''object has no attribute get''))"

text \<open>
  \<open>run_judge\<close>. Loading and formatting the prompts happens before the \<open>try\<close>: an exception
  there is raised to the caller. Everything inside the \<open>try\<close> is caught.
\<close>

definition run_judge ::
  "'x env \<Rightarrow> json \<Rightarrow> string \<Rightarrow> string \<Rightarrow> json list \<Rightarrow> 'x \<Rightarrow> (exn + judge_result) \<times> 'x"
where
  "run_judge E persona user_message assistant_draft memory_items x =
     (if \<not> JUDGE_ENABLED E then
        (Inr \<lparr>jr_verdict = ''PASS'', jr_feedback = JNull, jr_rewritten_response = JNull,
              jr_reason = ''judge_disabled'', jr_risk_tags = []\<rparr>, x)
      else
        (case judge_prompts E persona memory_items user_message assistant_draft of
           Inl e \<Rightarrow> (Inl e, x)
         | Inr (system_txt, user_prompt) \<Rightarrow>
             (case judge_ollama_chat E system_txt user_prompt x of
                (Inl e, x') \<Rightarrow> (Inr (judge_failed e), x')
              | (Inr raw, x') \<Rightarrow>
                  (case judge_parse E raw of
                     Inl e \<Rightarrow> (Inr (judge_failed e), x')
                   | Inr r \<Rightarrow> (Inr r, x')))))"

text \<open>
  An environment for running the definitions: the external state counts the calls
  made; the judge backend answers with a fixed text; \<open>json.loads\<close> knows the texts used
  below.
\<close>

definition demo_loads :: "string \<Rightarrow> exn + json" where
  "demo_loads s =
     (if s = ''{\"verdict\": \"REWRITE\", \"feedback\": 5}'' then
        Inr (JObj [(''verdict'', JStr ''REWRITE''), (''feedback'', JInt 5)])
      else if s = ''{\"verdict\": \"MAYBE\"}'' then
        Inr (JObj [(''verdict'', JStr ''MAYBE'')])
      else if s = ''{\"verdict\": \"PASS\"}'' then
        Inr (JObj [(''verdict'', JStr ''PASS'')])
      else Inl ''Expecting value'')"

definition demo_env :: "(exn + string) \<Rightarrow> nat env" where
  "demo_env judge_reply =
     \<lparr>uuid4 = (\<lambda>n. (''id'' @ digits n, Suc n)),
      utc_now = (\<lambda>n. (n, Suc n)),
      ollama_chat = (\<lambda>sp h m n. (Inr ''draft'', Suc n)),
      judge_ollama_chat = (\<lambda>sp up n. (judge_reply, Suc n)),
      run_mx1_ollama = (\<lambda>p n. (Inl ''timeout'', Suc n)),
      extract_alerts = (\<lambda>ctx n. (Inr [], Suc n)),
      build_system_prompt = (\<lambda>p ms ts. Inr ''system''),
      judge_prompts = (\<lambda>p ms u d. Inr (''judge system'', ''judge user'')),
      build_mx1_prompt = (\<lambda>p s r g. Inr ''mx1''),
      json_loads = demo_loads,
      extract_json_object = (\<lambda>s. None),
      py_repr = (\<lambda>v. ''?''),
      float_of_str = (\<lambda>s. None),
      JUDGE_ENABLED = True,
      MX1_CONFIDENCE_THRESHOLD = Fin (8 / 10),
      MX1_RECENT_MESSAGES = 10,
      SUMMARY_CADENCE = 6,
      ALLOW_GLOBAL_WRITE = True\<rparr>"

section \<open>Post-chat pipeline, continued (pipeline.py, memory_extractor.py)\<close>

text \<open>\<open>a % b\<close> on integers: \<open>ZeroDivisionError\<close> for \<open>b = 0\<close>, floored otherwise.\<close>

definition py_mod :: "int \<Rightarrow> int \<Rightarrow> exn + int" where
  "py_mod a b = (if b = 0 then Inl ''integer modulo by zero'' else Inr (a mod b))"

text \<open>\<open>sep.join(xs)\<close>\<close>

fun str_join :: "string \<Rightarrow> string list \<Rightarrow> string" where
  "str_join sep [] = []"
| "str_join sep [x] = x"
| "str_join sep (x # y # ys) = x @ sep @ str_join sep (y # ys)"

text \<open>\<open>s.replace("\n", " ")\<close>\<close>

definition newlines_to_spaces :: "string \<Rightarrow> string" where
  "newlines_to_spaces s = map (\<lambda>c. if c = CHR 0x0A then CHR '' '' else c) s"

definition fallback_summary_from_recent :: "(string \<times> string) list \<Rightarrow> int \<Rightarrow> string" where
  "fallback_summary_from_recent recent msg_count =
     (if recent = [] then ''Session with '' @ str_int msg_count @ '' messages.''
      else
        (let tail = py_last 4 recent;
             snippets =
               map (\<lambda>(role, content). role @ '': '' @ take 80 (newlines_to_spaces (py_strip content)))
                 (filter (\<lambda>(role, content). newlines_to_spaces (py_strip content) \<noteq> []) tail);
             joined = str_join '' | '' (take 3 snippets)
         in ''Session with '' @ str_int msg_count @ '' messages. Recent: '' @ joined))"

definition emergency_summary :: "int \<Rightarrow> string" where
  "emergency_summary msg_count =
     ''Session with '' @ str_int msg_count @ '' messages. Summary temporarily unavailable.''"

text \<open>
  \<open>extract_mx1\<close>: prompt, model call, lenient JSON extraction, validation. Building the
  prompt reads files and may raise; so may the call of the backend.
\<close>

definition extract_mx1 ::
  "'x env \<Rightarrow> json \<Rightarrow> summary_row option \<Rightarrow> (string \<times> string) list \<Rightarrow> 'x
     \<Rightarrow> (exn + (mx1_item list \<times> summary_patch \<times> string)) \<times> 'x"
where
  "extract_mx1 E persona session_summary recent x =
     (case build_mx1_prompt E persona session_summary recent (ALLOW_GLOBAL_WRITE E) of
        Inl e \<Rightarrow> (Inl e, x)
      | Inr prompt \<Rightarrow>
          (case run_mx1_ollama E prompt x of
             (Inl e, x') \<Rightarrow> (Inl e, x')
           | (Inr raw, x') \<Rightarrow>
               (let data = (case extract_json_object E raw of None \<Rightarrow> [] | Some ob \<Rightarrow> ob);
                    (accepted_items, patch) =
                      validate_mx1_output (float_of_str E) data (MX1_CONFIDENCE_THRESHOLD E)
                        (if ALLOW_GLOBAL_WRITE E then [''global'', ''session''] else [''session''])
                in (Inr (accepted_items, patch, raw), x'))))"

record pipeline_debug =
  dbg_session_id :: string
  dbg_msg_count :: "int option"
  dbg_should_update_summary :: "bool option"
  dbg_memory_items_upserted :: nat
  dbg_summary_updated :: bool
  dbg_summary_len :: nat
  dbg_errors :: "string list"

text \<open>
  Step 5 of the pipeline: the loop \<open>for it in items\<close>. An exception of
  \<open>upsert_memory_item\<close> leaves the loop; the rows written before it stay.
\<close>

fun upsert_items ::
  "'x env \<Rightarrow> string \<Rightarrow> mx1_item list \<Rightarrow> nat \<Rightarrow> db \<times> 'x \<Rightarrow> (exn + nat) \<times> (db \<times> 'x)"
where
  "upsert_items E sid [] upserted w = (Inr upserted, w)"
| "upsert_items E sid (it # rest) upserted (d, x) =
     (case uuid4 E x of
        (new_id, x1) \<Rightarrow>
          (case utc_now E x1 of
             (now, x2) \<Rightarrow>
               (case upsert_memory_item new_id now (item_scope it) (item_key it) (item_value it)
                       (item_confidence it)
                       (if item_scope it = ''session'' then Some sid else None) None d of
                  Inl e \<Rightarrow> (Inl e, (d, x2))
                | Inr (mid, d') \<Rightarrow> upsert_items E sid rest (Suc upserted) (d', x2))))"

text \<open>
  The body of the \<open>try\<close>. The result holds the exception that left the body, if any, with
  \<open>debug\<close> and the world as they were at that moment.
\<close>

definition pipeline_try ::
  "'x env \<Rightarrow> string \<Rightarrow> json \<Rightarrow> pipeline_debug \<Rightarrow> db \<times> 'x \<Rightarrow> exn option \<times> pipeline_debug \<times> (db \<times> 'x)"
where
  "pipeline_try E sid persona debug w =
     (case w of (d, x) \<Rightarrow>
        (let recent = recent_context (MX1_RECENT_MESSAGES E) sid d;
             msg_count = count_messages sid d
         in case py_mod msg_count (SUMMARY_CADENCE E) of
              Inl e \<Rightarrow> (Some e, debug, (d, x))
            | Inr m \<Rightarrow>
                (let should_update_summary = (m = 0);
                     debug1 = debug\<lparr>dbg_msg_count := Some msg_count,
                                    dbg_should_update_summary := Some should_update_summary\<rparr>;
                     session_summary = get_session_summary sid d
                 in case extract_mx1 E persona session_summary recent x of
                      (Inl e, x1) \<Rightarrow> (Some e, debug1, (d, x1))
                    | (Inr (items, patch, raw), x1) \<Rightarrow>
                        (case upsert_items E sid items 0 (d, x1) of
                           (Inl e, w2) \<Rightarrow> (Some e, debug1, w2)
                         | (Inr upserted, (d2, x2)) \<Rightarrow>
                             (let debug2 = debug1\<lparr>dbg_memory_items_upserted := upserted\<rparr>
                              in if should_update_summary then
                                   (let summary_text = py_strip (sp_summary patch)
                                    in case utc_now E x2 of
                                         (now, x3) \<Rightarrow>
                                           if summary_text \<noteq> [] then
                                             (None,
                                              debug2\<lparr>dbg_summary_updated := True,
                                                     dbg_summary_len := length summary_text\<rparr>,
                                              (upsert_session_summary now sid summary_text
                                                 (sp_open_loops patch) d2, x3))
                                           else
                                             (let fallback = fallback_summary_from_recent recent msg_count
                                              in (None,
                                                  debug2\<lparr>dbg_summary_updated := True,
                                                         dbg_summary_len := length fallback,
                                                         dbg_errors := dbg_errors debug2 @
                                                           [''MX1 returned empty summary at cadence; used fallback summary.'']\<rparr>,
                                                  (upsert_session_summary now sid fallback
                                                     (sp_open_loops patch) d2, x3))))
                                 else (None, debug2, (d2, x2)))))))"

text \<open>The \<open>except\<close> branch: the emergency summary, in its own \<open>try\<close>.\<close>

definition pipeline_except ::
  "'x env \<Rightarrow> string \<Rightarrow> exn \<Rightarrow> pipeline_debug \<Rightarrow> db \<times> 'x \<Rightarrow> pipeline_debug \<times> (db \<times> 'x)"
where
  "pipeline_except E sid e debug w =
     (case w of (d, x) \<Rightarrow>
        (let debug1 = debug\<lparr>dbg_errors := dbg_errors debug @ [''pipeline_error: '' @ e]\<rparr>;
             msg_count = count_messages sid d
         in case py_mod msg_count (SUMMARY_CADENCE E) of
              Inl e2 \<Rightarrow>
                (debug1\<lparr>dbg_errors := dbg_errors debug1 @ [''emergency_summary_failed: '' @ e2]\<rparr>,
                 (d, x))
            | Inr m \<Rightarrow>
                if m = 0 then
                  (let emergency = emergency_summary msg_count
                   in case utc_now E x of
                        (now, x1) \<Rightarrow>
                          (debug1\<lparr>dbg_msg_count := Some msg_count,
                                  dbg_should_update_summary := Some True,
                                  dbg_summary_updated := True,
                                  dbg_summary_len := length emergency,
                                  dbg_errors := dbg_errors debug1 @
                                    [''MX1 failed at cadence; wrote emergency summary.'']\<rparr>,
                           (upsert_session_summary now sid emergency [] d, x1)))
                else (debug1, (d, x))))"

definition run_post_chat_pipeline ::
  "'x env \<Rightarrow> string \<Rightarrow> json \<Rightarrow> db \<times> 'x \<Rightarrow> pipeline_debug \<times> (db \<times> 'x)"
where
  "run_post_chat_pipeline E sid persona w =
     (let debug = \<lparr>dbg_session_id = sid, dbg_msg_count = None,
                    dbg_should_update_summary = None, dbg_memory_items_upserted = 0,
                    dbg_summary_updated = False, dbg_summary_len = 0, dbg_errors = []\<rparr>
      in case pipeline_try E sid persona debug w of
           (None, debug', w') \<Rightarrow> (debug', w')
         | (Some e, debug', w') \<Rightarrow> pipeline_except E sid e debug' w')"




section \<open>Alerts tool (tools/alerts/alert_service.py, tools/alerts/tool.py, tools/bootstrap.py)\<close>

text \<open>
  The text SQLite stores in a \<open>TEXT\<close> column for a bound parameter: a string is stored as
  it is, a number as its text, a Boolean as \<open>1\<close> or \<open>0\<close>; \<open>None\<close> violates \<open>NOT NULL\<close>,
  and a list or a dictionary cannot be bound.
\<close>

definition sql_text :: "'x env \<Rightarrow> json \<Rightarrow> exn + string" where
  "sql_text E v =
     (case v of
        JStr s \<Rightarrow> Inr s
      | JInt i \<Rightarrow> Inr (py_repr E v)
      | JFloat f \<Rightarrow> Inr (py_repr E v)
      | JBool b \<Rightarrow> Inr (if b then ''1'' else ''0'')
      | JNull \<Rightarrow> Inl ''NOT NULL constraint failed''
      | _ \<Rightarrow> Inl ''Error binding parameter: type is not supported'')"

text \<open>\<open>str(x or "").strip()\<close>\<close>

definition str_or_empty :: "'x env \<Rightarrow> json \<Rightarrow> string" where
  "str_or_empty E v = py_strip (if py_truthy v then py_str E v else [])"

text \<open>
  The confidence of an alert: \<open>float\<close> and clamp, \<open>0.8\<close> on \<open>ValueError\<close> and
  \<open>TypeError\<close>. The \<open>OverflowError\<close> of a huge integer is not caught there (\<open>None\<close>): it
  reaches the handler of the loop, which skips the alert.
\<close>

definition alert_confidence_of :: "'x env \<Rightarrow> json \<Rightarrow> real option" where
  "alert_confidence_of E v =
     (case v of
        JInt i \<Rightarrow> if \<bar>i\<bar> \<ge> 2 ^ 1024 - 2 ^ 970 then None else Some (clamp01 (Fin (of_int i)))
      | _ \<Rightarrow> (case py_float (float_of_str E) v of
                 Some f \<Rightarrow> Some (clamp01 f)
               | None \<Rightarrow> Some (8 / 10)))"

definition created_event :: "string \<Rightarrow> string \<Rightarrow> string \<Rightarrow> json" where
  "created_event aid title due_at =
     JObj [(''type'', JStr ''alert_created''), (''alert_id'', JStr aid),
           (''title'', JStr title), (''due_at'', JStr due_at)]"

text \<open>
  \<open>execute_alert_creation\<close>: the loop over \<open>alerts[:2]\<close>; every exception inside an
  iteration is caught and the loop goes on.
\<close>

fun execute_alert_loop ::
  "'x env \<Rightarrow> string option \<Rightarrow> string \<Rightarrow> json list \<Rightarrow> json list \<Rightarrow> db \<times> 'x \<Rightarrow> json list \<times> (db \<times> 'x)"
where
  "execute_alert_loop E sid scope [] tool_events w = (tool_events, w)"
| "execute_alert_loop E sid scope (alert_data # rest) tool_events (d, x) =
     (case alert_data of
        JObj a \<Rightarrow>
          (let title = str_or_empty E (json_get a ''title'' JNull);
               body = str_or_empty E (json_get a ''body'' JNull);
               due_at = str_or_empty E (json_get a ''due_at'' JNull)
           in if title = [] \<or> due_at = [] then execute_alert_loop E sid scope rest tool_events (d, x)
              else
                (case alert_confidence_of E (json_get a ''confidence'' (JFloat (Fin (8 / 10)))) of
                   None \<Rightarrow> execute_alert_loop E sid scope rest tool_events (d, x)
                 | Some confidence \<Rightarrow>
                     (case uuid4 E x of
                        (new_id, x1) \<Rightarrow>
                          (case utc_now E x1 of
                             (now, x2) \<Rightarrow>
                               (case (case json_get a ''source_message_id'' JNull of
                                        JNull \<Rightarrow> Inr None
                                      | v \<Rightarrow> map_sum id Some (sql_text E v)) of
                                  Inl e \<Rightarrow> execute_alert_loop E sid scope rest tool_events (d, x2)
                                | Inr src \<Rightarrow>
                                    (case create_alert new_id now scope title body (Some due_at)
                                            confidence (if scope = ''session'' then sid else None)
                                            src d of
                                       Inl e \<Rightarrow>
                                         execute_alert_loop E sid scope rest tool_events (d, x2)
                                     | Inr (aid, d') \<Rightarrow>
                                         execute_alert_loop E sid scope rest
                                           (tool_events @ [created_event aid title due_at])
                                           (d', x2)))))))
      | _ \<Rightarrow> execute_alert_loop E sid scope rest tool_events (d, x))"

definition execute_alert_creation ::
  "'x env \<Rightarrow> json list \<Rightarrow> string option \<Rightarrow> string \<Rightarrow> db \<times> 'x \<Rightarrow> json list \<times> (db \<times> 'x)"
where
  "execute_alert_creation E alerts sid scope w = execute_alert_loop E sid scope (take 2 alerts) [] w"

text \<open>
  \<open>AlertsTool\<close>. \<open>extract_alerts\<close> (the prompt, the call of the backend and the validation
  of its reply) is taken as a whole: it raises or returns its \<open>create\<close> list.
\<close>

definition alerts_tool_run ::
  "'x env \<Rightarrow> tool_context \<Rightarrow> db \<times> 'x \<Rightarrow> (exn + json list option) \<times> (db \<times> 'x)"
where
  "alerts_tool_run E ctx w =
     (case w of (d, x) \<Rightarrow>
        (case extract_alerts E ctx x of
           (Inl e, x') \<Rightarrow> (Inl e, (d, x'))
         | (Inr alerts_to_create, x') \<Rightarrow>
             if alerts_to_create = [] then (Inr (Some []), (d, x'))
             else
               (case execute_alert_creation E alerts_to_create (Some (ctx_session_id ctx))
                       ''session'' (d, x') of
                  (created, w') \<Rightarrow>
                    if created = [] then (Inr (Some []), w')
                    else
                      (Inr (Some [JObj [(''type'', JStr ''alert_created''),
                                        (''count'', JInt (int (length created))),
                                        (''items'', JArr created)]]), w'))))"

definition AlertsTool :: "'x env \<Rightarrow> (db \<times> 'x) tool_plugin" where
  "AlertsTool E = \<lparr>tool_id = ''alerts'', tool_name = ''Alerts'', run = alerts_tool_run E\<rparr>"

definition build_tools_registry :: "'x env \<Rightarrow> (db \<times> 'x) tools_registry" where
  "build_tools_registry E = register [] (AlertsTool E)"

section \<open>Turn orchestrator (main.py)\<close>

datatype http_error = HTTPException nat string | Unhandled exn

record chat_send_req =
  req_session_id :: string
  req_message :: string

record chat_response =
  resp_session_id :: string
  resp_persona_id :: string
  resp_assistant :: json
  resp_verdict :: string
  resp_reason :: "string option"
  resp_risk_tags :: "string list"
  resp_pipeline :: pipeline_debug
  resp_tool_events :: "json list"

text \<open>\<open>dict(row)\<close> for the rows handed to prompts and tools.\<close>

definition opt_json :: "string option \<Rightarrow> json" where
  "opt_json v = (case v of None \<Rightarrow> JNull | Some s \<Rightarrow> JStr s)"

definition memory_row_json :: "memory_row \<Rightarrow> json" where
  "memory_row_json r =
     JObj [(''id'', JStr (mem_id r)), (''scope'', JStr (mem_scope r)),
           (''session_id'', opt_json (mem_session_id r)), (''key'', JStr (mem_key r)),
           (''value'', JStr (mem_value r)), (''confidence'', JFloat (Fin (mem_confidence r))),
           (''source_message_id'', opt_json (mem_source_message_id r)),
           (''created_at'', JInt (int (mem_created_at r))),
           (''updated_at'', JInt (int (mem_updated_at r)))]"

definition summary_row_json :: "summary_row \<Rightarrow> json" where
  "summary_row_json r =
     JObj [(''session_id'', JStr (sum_session_id r)), (''summary'', JStr (sum_summary r)),
           (''open_loops'', JArr (map JStr (sum_open_loops r))),
           (''updated_at'', JInt (int (sum_updated_at r)))]"

text \<open>Step 1: the memory read path.\<close>

definition memory_read_path :: "json \<Rightarrow> string \<Rightarrow> db \<Rightarrow> exn + json list" where
  "memory_read_path persona sid d =
     (case persona of
        JObj p \<Rightarrow>
          (case json_get p ''memory_policy'' (JObj []) of
             JObj mem_policy \<Rightarrow>
               if py_truthy (json_get mem_policy ''enabled'' JNull) then
                 (if json_get mem_policy ''scope'' (JStr ''session'') = JStr ''global'' then
                    Inr (map memory_row_json (list_memory_items ''global'' None 50 d))
                  else
                    Inr (map memory_row_json (list_memory_items ''global'' None 50 d)
                         @ map memory_row_json (list_memory_items ''session'' (Some sid) 50 d)))
               else Inr []
           | _ \<Rightarrow> Inl ''object has no attribute get'')
      | _ \<Rightarrow> Inl ''object has no attribute get'')"

text \<open>The local variables of the retry loop.\<close>

record loop_state =
  ls_current_history :: "(string \<times> string) list"
  ls_final_text :: json
  ls_verdict :: string
  ls_judge_result :: "judge_result option"
  ls_assistant_draft :: "string option"

text \<open>
  \<open>for attempt in range(max_retries)\<close> with \<open>max_retries = 3\<close>: the second argument from
  the right of the state is the list of attempts still to run. \<open>Inr\<close> is the state when the
  loop is left by \<open>break\<close> or by exhaustion, \<open>Inl\<close> the exception that left it.
\<close>

fun judge_retry_loop ::
  "'x env \<Rightarrow> json \<Rightarrow> json list \<Rightarrow> string \<Rightarrow> string \<Rightarrow> nat list \<Rightarrow> loop_state \<Rightarrow> 'x
     \<Rightarrow> (http_error + loop_state) \<times> 'x"
where
  "judge_retry_loop E persona mem_items system_prompt message [] st x = (Inr st, x)"
| "judge_retry_loop E persona mem_items system_prompt message (attempt # rest) st x =
     (case ollama_chat E system_prompt (ls_current_history st) message x of
        (Inl e, x1) \<Rightarrow> (Inl (HTTPException 502 (''Ollama chat failed: '' @ e)), x1)
      | (Inr assistant_draft, x1) \<Rightarrow>
          (case run_judge E persona message assistant_draft mem_items x1 of
             (Inl e, x2) \<Rightarrow> (Inl (Unhandled e), x2)
           | (Inr judge_res, x2) \<Rightarrow>
               (let verdict = jr_verdict judge_res;
                    feedback = jr_feedback judge_res;
                    st1 = st\<lparr>ls_assistant_draft := Some assistant_draft,
                              ls_judge_result := Some judge_res, ls_verdict := verdict\<rparr>
                in if verdict = ''PASS'' then
                     (Inr (st1\<lparr>ls_final_text := JStr assistant_draft\<rparr>), x2)
                   else if verdict = ''REWRITE'' then
                     (if py_truthy feedback \<and> attempt < 3 - 1 then
                        judge_retry_loop E persona mem_items system_prompt message rest
                          (st1\<lparr>ls_current_history := ls_current_history st1 @
                                 [(''assistant'', assistant_draft),
                                  (''system'', ''Your previous response was rejected. Feedback: ''
                                     @ py_str E feedback
                                     @ ''. Rewrite it following these instructions.'')]\<rparr>)
                          x2
                      else
                        (Inr (st1\<lparr>ls_final_text :=
                                 (if py_truthy (jr_rewritten_response judge_res)
                                  then jr_rewritten_response judge_res
                                  else JStr assistant_draft)\<rparr>), x2))
                   else if verdict = ''BLOCK'' then
                     (Inr (st1\<lparr>ls_final_text :=
                              (if py_truthy (jr_rewritten_response judge_res)
                               then jr_rewritten_response judge_res
                               else JStr ''I cannot answer that.'')\<rparr>), x2)
                   else
                     judge_retry_loop E persona mem_items system_prompt message rest st1 x2)))"

text \<open>Everything of \<open>chat_send_api\<close> after the assistant message is stored.\<close>

definition after_persist ::
  "'x env \<Rightarrow> chat_send_req \<Rightarrow> string \<Rightarrow> json \<Rightarrow> json list \<Rightarrow> json \<Rightarrow> string \<Rightarrow> string
     \<Rightarrow> judge_result option \<Rightarrow> db \<times> 'x \<Rightarrow> chat_response \<times> (db \<times> 'x)"
where
  "after_persist E req persona_id persona mem_items final_text final_str verdict judge_res w =
     (case run_post_chat_pipeline E (req_session_id req) persona w of
        (pipeline_debug, (d1, x1)) \<Rightarrow>
          (let registry = build_tools_registry E;
               tool_ids = map tool_id (list_tools registry);
               enabled_map = get_effective_tool_enabled_map (req_session_id req) tool_ids d1;
               msgs_latest = get_messages (req_session_id req) 50 d1;
               recent10 = py_last 10 (map (\<lambda>m. (msg_role m, msg_content m)) msgs_latest);
               summary = get_session_summary (req_session_id req) d1;
               tool_ctx = \<lparr>ctx_session_id = req_session_id req, ctx_persona = persona,
                            ctx_memory_items = mem_items,
                            ctx_session_summary = map_option summary_row_json summary,
                            ctx_recent_messages = recent10, ctx_user_message = req_message req,
                            ctx_assistant_final = final_str,
                            ctx_ollama_base_url = ''http://ollama:11434'',
                            ctx_ollama_model = ''llama3.2:3b''\<rparr>
           in case run_tools registry tool_ctx enabled_map (d1, x1) of
                (tool_events, w2) \<Rightarrow>
                  (\<lparr>resp_session_id = req_session_id req, resp_persona_id = persona_id,
                    resp_assistant = final_text, resp_verdict = verdict,
                    resp_reason = map_option jr_reason judge_res,
                    resp_risk_tags = (case judge_res of None \<Rightarrow> [] | Some r \<Rightarrow> jr_risk_tags r),
                    resp_pipeline = pipeline_debug, resp_tool_events = tool_events\<rparr>, w2)))"

text \<open>
  \<open>chat_send_api\<close>. \<open>Inl\<close> is the error the request ends with: an \<open>HTTPException\<close> the
  handler raises, or an exception nothing catches (a 500 response).
\<close>

definition chat_send_api ::
  "'x env \<Rightarrow> (string \<rightharpoonup> json) \<Rightarrow> chat_send_req \<Rightarrow> db \<times> 'x
     \<Rightarrow> (http_error + chat_response) \<times> (db \<times> 'x)"
where
  "chat_send_api E PERSONAS req w =
     (case w of (d, x) \<Rightarrow>
      (case get_session (req_session_id req) d of
         None \<Rightarrow> (Inl (HTTPException 404 ''Session not found''), (d, x))
       | Some s \<Rightarrow>
          (case (case PERSONAS (ses_persona_id s) of
                   None \<Rightarrow> None
                 | Some p \<Rightarrow> if py_truthy p then Some p else None) of
             None \<Rightarrow> (Inl (HTTPException 500 ''Session persona missing''), (d, x))
           | Some persona \<Rightarrow>
              (case memory_read_path persona (req_session_id req) d of
                 Inl e \<Rightarrow> (Inl (Unhandled e), (d, x))
               | Inr mem_items \<Rightarrow>
                  (case uuid4 E x of (uid, xa) \<Rightarrow>
                  (case utc_now E xa of (unow, xb) \<Rightarrow>
                  (case add_message uid unow (req_session_id req) ''user'' (req_message req) d of
                     Inl e \<Rightarrow> (Inl (Unhandled e), (d, xb))
                   | Inr (umid, d1) \<Rightarrow>
                      (let msgs = get_messages (req_session_id req) 50 d1;
                           history = map (\<lambda>m. (msg_role m, msg_content m))
                                       (filter (\<lambda>m. msg_role m = ''user'' \<or> msg_role m = ''assistant'') msgs);
                           all_tools = list_tools (build_tools_registry E)
                       in case build_system_prompt E persona mem_items (map tool_name all_tools) of
                            Inl e \<Rightarrow> (Inl (Unhandled e), (d1, xb))
                          | Inr system_prompt \<Rightarrow>
                             (case judge_retry_loop E persona mem_items system_prompt (req_message req)
                                     [0, 1, 2]
                                     \<lparr>ls_current_history = butlast history,
                                      ls_final_text = JStr [], ls_verdict = ''PASS'',
                                      ls_judge_result = None, ls_assistant_draft = None\<rparr> xb of
                                (Inl err, xc) \<Rightarrow> (Inl err, (d1, xc))
                              | (Inr st, xc) \<Rightarrow>
                                 (case (if \<not> py_truthy (ls_final_text st)
                                        then (case ls_assistant_draft st of
                                                None \<Rightarrow> Inl ''name assistant_draft is not defined''
                                              | Some dr \<Rightarrow> Inr (JStr dr))
                                        else Inr (ls_final_text st)) of
                                    Inl e \<Rightarrow> (Inl (Unhandled e), (d1, xc))
                                  | Inr final_text \<Rightarrow>
                                     (let verdict = (if ls_verdict st = ''REWRITE'' \<and> py_truthy final_text
                                                     then ''PASS'' else ls_verdict st)
                                      in case uuid4 E xc of (aid, xd) \<Rightarrow>
                                         (case utc_now E xd of (anow, xe) \<Rightarrow>
                                         (case sql_text E final_text of
                                            Inl e \<Rightarrow> (Inl (Unhandled e), (d1, xe))
                                          | Inr final_str \<Rightarrow>
                                             (case add_message aid anow (req_session_id req)
                                                     ''assistant'' final_str d1 of
                                                Inl e \<Rightarrow> (Inl (Unhandled e), (d1, xe))
                                              | Inr (amid, d2) \<Rightarrow>
                                                 (case after_persist E req (ses_persona_id s) persona
                                                         mem_items final_text final_str verdict
                                                         (ls_judge_result st) (d2, xe) of
                                                    (resp, w') \<Rightarrow> (Inr resp, w'))))))))))))))))"

text \<open>
  An observation \<open>cnt\<close> of the external state counts the draft calls when every call of
  \<open>ollama_chat\<close> raises it by one and no other call of the environment changes it.
\<close>

definition counts_drafts :: "'x env \<Rightarrow> ('x \<Rightarrow> nat) \<Rightarrow> bool" where
  "counts_drafts E cnt \<longleftrightarrow>
     (\<forall>sp h m x. cnt (snd (ollama_chat E sp h m x)) = Suc (cnt x))
     \<and> (\<forall>x. cnt (snd (uuid4 E x)) = cnt x)
     \<and> (\<forall>x. cnt (snd (utc_now E x)) = cnt x)
     \<and> (\<forall>sp up x. cnt (snd (judge_ollama_chat E sp up x)) = cnt x)
     \<and> (\<forall>p x. cnt (snd (run_mx1_ollama E p x)) = cnt x)
     \<and> (\<forall>ctx x. cnt (snd (extract_alerts E ctx x)) = cnt x)"

text \<open>
  Any environment, with a counter of draft calls added to its external state.
\<close>

definition counting :: "'x env \<Rightarrow> ('x \<times> nat) env" where
  "counting E =
     \<lparr>uuid4 = (\<lambda>(x, n). case uuid4 E x of (r, x') \<Rightarrow> (r, (x', n))),
      utc_now = (\<lambda>(x, n). case utc_now E x of (r, x') \<Rightarrow> (r, (x', n))),
      ollama_chat = (\<lambda>sp h m (x, n). case ollama_chat E sp h m x of (r, x') \<Rightarrow> (r, (x', Suc n))),
      judge_ollama_chat = (\<lambda>sp up (x, n). case judge_ollama_chat E sp up x of (r, x') \<Rightarrow> (r, (x', n))),
      run_mx1_ollama = (\<lambda>p (x, n). case run_mx1_ollama E p x of (r, x') \<Rightarrow> (r, (x', n))),
      extract_alerts = (\<lambda>ctx (x, n). case extract_alerts E ctx x of (r, x') \<Rightarrow> (r, (x', n))),
      build_system_prompt = build_system_prompt E,
      judge_prompts = judge_prompts E,
      build_mx1_prompt = build_mx1_prompt E,
      json_loads = json_loads E,
      extract_json_object = extract_json_object E,
      py_repr = py_repr E,
      float_of_str = float_of_str E,
      JUDGE_ENABLED = JUDGE_ENABLED E,
      MX1_CONFIDENCE_THRESHOLD = MX1_CONFIDENCE_THRESHOLD E,
      MX1_RECENT_MESSAGES = MX1_RECENT_MESSAGES E,
      SUMMARY_CADENCE = SUMMARY_CADENCE E,
      ALLOW_GLOBAL_WRITE = ALLOW_GLOBAL_WRITE E\<rparr>"

text \<open>A database with one session, its persona, and a request.\<close>

definition chat_db :: db where
  "chat_db = init_db\<lparr>tbl_sessions := [\<lparr>ses_id = ''s1'', ses_persona_id = ''p1'', ses_created_at = 0\<rparr>]\<rparr>"

definition demo_personas :: "string \<rightharpoonup> json" where
  "demo_personas = [''p1'' \<mapsto> JObj [(''id'', JStr ''p1''), (''name'', JStr ''Coach'')]]"

definition demo_req :: chat_send_req where
  "demo_req = \<lparr>req_session_id = ''s1'', req_message = ''hello''\<rparr>"

text \<open>An environment whose draft backend is unreachable.\<close>

definition down_env :: "nat env" where
  "down_env = (demo_env (Inl ''unused''))\<lparr>ollama_chat := (\<lambda>sp h m n. (Inl ''connection refused'', Suc n))\<rparr>"

text \<open>
  The effect of a request on the messages table: a request that ends with an error has
  stored nothing or the user message alone; a request that returns a response has appended
  the user message and the assistant message whose content is the final reply, and
  nothing else.
\<close>

definition user_row :: "chat_send_req \<Rightarrow> string \<Rightarrow> nat \<Rightarrow> message_row" where
  "user_row req uid unow =
     \<lparr>msg_id = uid, msg_session_id = req_session_id req, msg_role = ''user'',
      msg_content = req_message req, msg_created_at = unow\<rparr>"

definition assistant_row :: "chat_send_req \<Rightarrow> string \<Rightarrow> nat \<Rightarrow> string \<Rightarrow> message_row" where
  "assistant_row req aid anow final =
     \<lparr>msg_id = aid, msg_session_id = req_session_id req, msg_role = ''assistant'',
      msg_content = final, msg_created_at = anow\<rparr>"

definition messages_effect ::
  "'x env \<Rightarrow> chat_send_req \<Rightarrow> db \<Rightarrow> (http_error + chat_response) \<Rightarrow> db \<Rightarrow> bool"
where
  "messages_effect E req d res d' =
     (case res of
        Inl err \<Rightarrow>
          tbl_messages d' = tbl_messages d
          \<or> (\<exists>uid unow. tbl_messages d' = tbl_messages d @ [user_row req uid unow])
      | Inr resp \<Rightarrow>
          (\<exists>uid unow aid anow final.
             sql_text E (resp_assistant resp) = Inr final
             \<and> tbl_messages d' =
                 tbl_messages d @ [user_row req uid unow, assistant_row req aid anow final]))"

text \<open>The judge backend asks for a rewrite, with feedback, every time.\<close>

definition rewrite_env :: "(nat \<times> nat) env" where
  "rewrite_env = counting (demo_env (Inr ''{\"verdict\": \"REWRITE\", \"feedback\": 5}''))"

section \<open>Verified properties\<close>

subsection \<open>The tool runner\<close>

lemma run_tools_loop_append:
  "run_tools_loop ctx em (pre @ post) evs w =
     (case run_tools_loop ctx em pre evs w of (evs1, w1) \<Rightarrow> run_tools_loop ctx em post evs1 w1)"
  by (induction pre arbitrary: evs w) (auto split: prod.splits sum.splits)

lemma run_tools_loop_world:
  "snd (run_tools_loop ctx em ts evs w) =
     foldl (\<lambda>w t. snd (run t ctx w)) w (filter (\<lambda>t. enabled_get em (tool_id t)) ts)"
  by (induction ts arbitrary: evs w) (auto split: prod.splits sum.splits)

lemma run_tools_loop_events:
  "fst (run_tools_loop ctx em ts evs w) = evs @ fst (run_tools_loop ctx em ts [] w)"
proof (induction ts arbitrary: evs w)
  case Nil
  show ?case by simp
next
  case (Cons t ts)
  show ?case
    apply (simp split: prod.splits sum.splits)
    apply (intro conjI impI allI)
    using Cons.IH apply (metis append.assoc append_Nil)+
    done
qed

text \<open>
  Claim C9. A registered tool whose entry in the enabled map is \<open>False\<close> contributes
  exactly one event, the dictionary with \<open>event\<close> \<open>skipped\<close>, the tool's id, the title
  \<open>Tool disabled\<close>, the message \<open><id> is disabled for this session.\<close> and empty data,
  placed after the events of the tools before it, and the world reaches the tools after it
  unchanged: its \<open>run\<close> is never invoked, so replacing \<open>run\<close> by any other function changes
  nothing. A tool without an entry in the enabled map is treated as enabled: its \<open>run\<close> is
  invoked.
\<close>

theorem run_tools_disabled_skipped:
  assumes reg: "list_tools registry = pre @ t # post"
  shows "(enabled_map (tool_id t) = Some False \<longrightarrow>
            run_tools registry ctx enabled_map w =
              (case run_tools_loop ctx enabled_map pre [] w of
                 (evs1, w1) \<Rightarrow>
                   run_tools_loop ctx enabled_map post
                     (evs1 @ [JObj [(''tool_id'', JStr (tool_id t)), (''event'', JStr ''skipped''),
                                    (''title'', JStr ''Tool disabled''),
                                    (''message'', JStr (tool_id t @ '' is disabled for this session.'')),
                                    (''data'', JObj [])]]) w1)
          \<and> (\<forall>registry2 r. list_tools registry2 = pre @ t\<lparr>run := r\<rparr> # post \<longrightarrow>
                 run_tools registry2 ctx enabled_map w = run_tools registry ctx enabled_map w))
       \<and> (enabled_map (tool_id t) = None \<longrightarrow>
            run_tools registry ctx enabled_map w =
              (case run_tools_loop ctx enabled_map pre [] w of
                 (evs1, w1) \<Rightarrow>
                   (case run t ctx w1 of
                      (Inr tool_events, w2) \<Rightarrow>
                        run_tools_loop ctx enabled_map post
                          (evs1 @ (case tool_events of None \<Rightarrow> [] | Some es \<Rightarrow> es)) w2
                    | (Inl e, w2) \<Rightarrow>
                        run_tools_loop ctx enabled_map post
                          (evs1 @ [JObj [(''tool_id'', JStr (tool_id t)), (''event'', JStr ''error''),
                                         (''title'', JStr ''Tool failed''),
                                         (''message'', JStr e),
                                         (''data'', JObj [])]]) w2)))"
  by (auto simp: run_tools_def reg run_tools_loop_append enabled_get_def skipped_event_def
        error_event_def split: prod.splits sum.splits)

text \<open>
  Claim C6. When the \<open>run\<close> of an enabled tool raises, the events of \<open>run_tools\<close>
  are the events of the tools before it, then exactly one event, the dictionary with
  \<open>event\<close> \<open>error\<close>, the tool's id, the title \<open>Tool failed\<close>, the exception message and
  empty data, then the events of the tools after it, run from the world the failed tool
  left. The final world is the one obtained by invoking \<open>run\<close> of every enabled tool, in
  registry order.
\<close>

theorem run_tools_error_isolated:
  assumes reg: "list_tools registry = pre @ t # post"
      and en: "enabled_get enabled_map (tool_id t)"
      and before: "run_tools_loop ctx enabled_map pre [] w = (evs1, w1)"
      and raises: "run t ctx w1 = (Inl msg, w2)"
  shows "fst (run_tools registry ctx enabled_map w) =
           evs1 @ [JObj [(''tool_id'', JStr (tool_id t)), (''event'', JStr ''error''),
                         (''title'', JStr ''Tool failed''),
                         (''message'', JStr msg),
                         (''data'', JObj [])]]
             @ fst (run_tools_loop ctx enabled_map post [] w2)
       \<and> snd (run_tools registry ctx enabled_map w) =
           foldl (\<lambda>w u. snd (run u ctx w)) w
             (filter (\<lambda>u. enabled_get enabled_map (tool_id u)) (list_tools registry))"
proof
  have "run_tools registry ctx enabled_map w =
          run_tools_loop ctx enabled_map post (evs1 @ [error_event (tool_id t) msg]) w2"
    by (simp add: run_tools_def reg run_tools_loop_append before raises en)
  then show "fst (run_tools registry ctx enabled_map w) =
           evs1 @ [JObj [(''tool_id'', JStr (tool_id t)), (''event'', JStr ''error''),
                         (''title'', JStr ''Tool failed''),
                         (''message'', JStr msg),
                         (''data'', JObj [])]]
             @ fst (run_tools_loop ctx enabled_map post [] w2)"
    using run_tools_loop_events [of ctx enabled_map post "evs1 @ [error_event (tool_id t) msg]" w2]
    by (simp add: error_event_def)
next
  show "snd (run_tools registry ctx enabled_map w) =
           foldl (\<lambda>w u. snd (run u ctx w)) w
             (filter (\<lambda>u. enabled_get enabled_map (tool_id u)) (list_tools registry))"
    by (simp add: run_tools_def run_tools_loop_world)
qed

lemma sample_registry_tools:
  "list_tools sample_registry = [ok_tool ''a'', failing_tool ''b'', ok_tool ''c'']"
  by (simp add: sample_registry_def register_def list_tools_def ok_tool_def failing_tool_def)

theorem run_tools_disabled_skipped_witness:
  "list_tools sample_registry = [ok_tool ''a'', failing_tool ''b''] @ ok_tool ''c'' # []
   \<and> [''c'' \<mapsto> False] (tool_id (ok_tool ''c'')) = Some False
   \<and> run_tools sample_registry sample_ctx [''c'' \<mapsto> False] [] =
       ([JObj [(''type'', JStr ''a'')],
         JObj [(''tool_id'', JStr ''b''), (''event'', JStr ''error''),
               (''title'', JStr ''Tool failed''), (''message'', JStr ''boom''),
               (''data'', JObj [])],
         JObj [(''tool_id'', JStr ''c''), (''event'', JStr ''skipped''),
               (''title'', JStr ''Tool disabled''),
               (''message'', JStr ''c is disabled for this session.''),
               (''data'', JObj [])]],
        [''a'', ''b''])
   \<and> list_tools sample_registry = [] @ ok_tool ''a'' # [failing_tool ''b'', ok_tool ''c'']
   \<and> [''c'' \<mapsto> False] (tool_id (ok_tool ''a'')) = None
   \<and> fst (run_tools sample_registry sample_ctx [''c'' \<mapsto> False] []) ! 0 =
       JObj [(''type'', JStr ''a'')]"
proof -
  have reg: "list_tools sample_registry = [ok_tool ''a'', failing_tool ''b''] @ ok_tool ''c'' # []"
    by (simp add: sample_registry_tools)
  have dis: "[''c'' \<mapsto> False] (tool_id (ok_tool ''c'')) = Some False"
    by (simp add: ok_tool_def)
  have reg2: "list_tools sample_registry = [] @ ok_tool ''a'' # [failing_tool ''b'', ok_tool ''c'']"
    by (simp add: sample_registry_tools)
  have unset: "[''c'' \<mapsto> False] (tool_id (ok_tool ''a'')) = None"
    by (simp add: ok_tool_def)
  have "run_tools sample_registry sample_ctx [''c'' \<mapsto> False] [] =
          (case run_tools_loop sample_ctx [''c'' \<mapsto> False] [ok_tool ''a'', failing_tool ''b''] [] [] of
             (evs1, w1) \<Rightarrow>
               run_tools_loop sample_ctx [''c'' \<mapsto> False] []
                 (evs1 @ [JObj [(''tool_id'', JStr (tool_id (ok_tool ''c''))),
                                (''event'', JStr ''skipped''),
                                (''title'', JStr ''Tool disabled''),
                                (''message'', JStr (tool_id (ok_tool ''c'') @ '' is disabled for this session.'')),
                                (''data'', JObj [])]]) w1)"
    using run_tools_disabled_skipped [OF reg, of "[''c'' \<mapsto> False]" sample_ctx "[]"] dis
    by blast
  then have r1: "run_tools sample_registry sample_ctx [''c'' \<mapsto> False] [] =
       ([JObj [(''type'', JStr ''a'')],
         JObj [(''tool_id'', JStr ''b''), (''event'', JStr ''error''),
               (''title'', JStr ''Tool failed''), (''message'', JStr ''boom''),
               (''data'', JObj [])],
         JObj [(''tool_id'', JStr ''c''), (''event'', JStr ''skipped''),
               (''title'', JStr ''Tool disabled''),
               (''message'', JStr ''c is disabled for this session.''),
               (''data'', JObj [])]],
        [''a'', ''b''])"
    by (simp add: ok_tool_def failing_tool_def enabled_get_def error_event_def)
  have "run_tools sample_registry sample_ctx [''c'' \<mapsto> False] [] =
          (case run_tools_loop sample_ctx [''c'' \<mapsto> False] [] [] [] of
             (evs1, w1) \<Rightarrow>
               (case run (ok_tool ''a'') sample_ctx w1 of
                  (Inr tool_events, w2) \<Rightarrow>
                    run_tools_loop sample_ctx [''c'' \<mapsto> False] [failing_tool ''b'', ok_tool ''c'']
                      (evs1 @ (case tool_events of None \<Rightarrow> [] | Some es \<Rightarrow> es)) w2
                | (Inl e, w2) \<Rightarrow>
                    run_tools_loop sample_ctx [''c'' \<mapsto> False] [failing_tool ''b'', ok_tool ''c'']
                      (evs1 @ [JObj [(''tool_id'', JStr (tool_id (ok_tool ''a''))),
                                     (''event'', JStr ''error''),
                                     (''title'', JStr ''Tool failed''),
                                     (''message'', JStr e),
                                     (''data'', JObj [])]]) w2))"
    using run_tools_disabled_skipped [OF reg2, of "[''c'' \<mapsto> False]" sample_ctx "[]"] unset
    by blast
  then have r2: "fst (run_tools sample_registry sample_ctx [''c'' \<mapsto> False] []) ! 0 =
       JObj [(''type'', JStr ''a'')]"
    by (simp add: ok_tool_def failing_tool_def enabled_get_def)
  from reg dis r1 reg2 unset r2 show ?thesis by blast
qed

theorem run_tools_error_isolated_witness:
  "list_tools sample_registry = [ok_tool ''a''] @ failing_tool ''b'' # [ok_tool ''c'']
   \<and> enabled_get Map.empty (tool_id (failing_tool ''b''))
   \<and> run_tools_loop sample_ctx Map.empty [ok_tool ''a''] [] [] =
         ([JObj [(''type'', JStr ''a'')]], [''a''])
   \<and> run (failing_tool ''b'') sample_ctx [''a''] = (Inl ''boom'', [''a'', ''b''])
   \<and> fst (run_tools sample_registry sample_ctx Map.empty []) =
         [JObj [(''type'', JStr ''a'')],
          JObj [(''tool_id'', JStr ''b''), (''event'', JStr ''error''),
                (''title'', JStr ''Tool failed''), (''message'', JStr ''boom''),
                (''data'', JObj [])],
          JObj [(''type'', JStr ''c'')]]
   \<and> snd (run_tools sample_registry sample_ctx Map.empty []) = [''a'', ''b'', ''c'']"
proof -
  have reg: "list_tools sample_registry = [ok_tool ''a''] @ failing_tool ''b'' # [ok_tool ''c'']"
    by (simp add: sample_registry_tools)
  have en: "enabled_get Map.empty (tool_id (failing_tool ''b''))"
    by (simp add: enabled_get_def)
  have before: "run_tools_loop sample_ctx Map.empty [ok_tool ''a''] [] [] =
         ([JObj [(''type'', JStr ''a'')]], [''a''])"
    by (simp add: ok_tool_def enabled_get_def)
  have raises: "run (failing_tool ''b'') sample_ctx [''a''] = (Inl ''boom'', [''a'', ''b''])"
    by (simp add: failing_tool_def)
  have r: "fst (run_tools sample_registry sample_ctx Map.empty []) =
         [JObj [(''type'', JStr ''a'')]]
           @ [JObj [(''tool_id'', JStr (tool_id (failing_tool ''b''))), (''event'', JStr ''error''),
                    (''title'', JStr ''Tool failed''),
                    (''message'', JStr ''boom''),
                    (''data'', JObj [])]]
           @ fst (run_tools_loop sample_ctx Map.empty [ok_tool ''c''] [] [''a'', ''b''])
       \<and> snd (run_tools sample_registry sample_ctx Map.empty []) =
           foldl (\<lambda>w u. snd (run u sample_ctx w)) []
             (filter (\<lambda>u. enabled_get Map.empty (tool_id u)) (list_tools sample_registry))"
    using run_tools_error_isolated [OF reg en before raises] .
  have r1: "fst (run_tools sample_registry sample_ctx Map.empty []) =
         [JObj [(''type'', JStr ''a'')],
          JObj [(''tool_id'', JStr ''b''), (''event'', JStr ''error''),
                (''title'', JStr ''Tool failed''), (''message'', JStr ''boom''),
                (''data'', JObj [])],
          JObj [(''type'', JStr ''c'')]]"
    using r by (simp add: ok_tool_def failing_tool_def enabled_get_def)
  have r2: "snd (run_tools sample_registry sample_ctx Map.empty []) = [''a'', ''b'', ''c'']"
    using r by (simp add: sample_registry_tools enabled_get_def) (simp add: ok_tool_def failing_tool_def)
  from reg en before raises r1 r2 show ?thesis by blast
qed

subsection \<open>Memory items\<close>













subsection \<open>Alerts\<close>

lemma update_alert_status_ids:
  "update_alert_status now aid status d = Inr (ok, d') \<Longrightarrow>
     map alert_id (tbl_alerts d') = map alert_id (tbl_alerts d)"
  by (auto simp: update_alert_status_def split: if_splits)

lemma terminal_not_active: "terminal s \<Longrightarrow> s \<noteq> ''active''"
  by (auto simp: terminal_def)


lemma run_alert_op_settled: "alert_settled aid d \<Longrightarrow> alert_settled aid (run_alert_op op d)"
proof (cases op)
  case (MarkDone now a)
  assume "alert_settled aid d"
  then show ?thesis unfolding MarkDone
    by (auto simp: alert_settled_def mark_alert_done_def update_alert_status_def terminal_def
          list_all_iff image_iff)
next
  case (MarkCancelled now a)
  assume "alert_settled aid d"
  then show ?thesis unfolding MarkCancelled
    by (auto simp: alert_settled_def mark_alert_cancelled_def update_alert_status_def terminal_def
          list_all_iff image_iff)
next
  case (CreateAlert new_id now scope title body due_at confidence sid)
  assume "alert_settled aid d"
  then show ?thesis unfolding CreateAlert
    by (auto simp: alert_settled_def create_alert_def terminal_def list_all_iff image_iff)
qed

lemma run_alert_ops_settled: "alert_settled aid d \<Longrightarrow> alert_settled aid (run_alert_ops ops d)"
  by (induction ops arbitrary: d) (auto intro: run_alert_op_settled)

text \<open>
  Claim C7, as amended. Under any sequence of the operations the application performs on
  alerts (marking done, marking cancelled, creating), an alert whose status is \<open>done\<close>
  or \<open>cancelled\<close> keeps a terminal status: it never returns to \<open>active\<close>.
\<close>

theorem alert_terminal_stays_terminal:
  assumes "r \<in> set (tbl_alerts d)"
      and "terminal (alert_status r)"
      and "distinct (map alert_id (tbl_alerts d))"
  shows "\<exists>r'. find (\<lambda>x. alert_id x = alert_id r) (tbl_alerts (run_alert_ops ops d)) = Some r'
            \<and> terminal (alert_status r') \<and> alert_status r' \<noteq> ''active''"
proof -
  have "list_all (\<lambda>x. alert_id x \<noteq> alert_id r \<or> terminal (alert_status x)) (tbl_alerts d)"
    unfolding list_all_iff
  proof
    fix x assume x: "x \<in> set (tbl_alerts d)"
    show "alert_id x \<noteq> alert_id r \<or> terminal (alert_status x)"
    proof (cases "alert_id x = alert_id r")
      case True
      then have "x = r" using assms(1,3) x by (meson distinct_map inj_onD)
      then show ?thesis using assms(2) by simp
    next
      case False
      then show ?thesis by simp
    qed
  qed
  then have "alert_settled (alert_id r) d" using assms(1) by (auto simp: alert_settled_def)
  then have s: "alert_settled (alert_id r) (run_alert_ops ops d)" by (rule run_alert_ops_settled)
  then obtain r' where r': "find (\<lambda>x. alert_id x = alert_id r) (tbl_alerts (run_alert_ops ops d)) = Some r'"
    by (cases "find (\<lambda>x. alert_id x = alert_id r) (tbl_alerts (run_alert_ops ops d))")
       (auto simp: alert_settled_def find_None_iff)
  then have "r' \<in> set (tbl_alerts (run_alert_ops ops d))" "alert_id r' = alert_id r"
    by (auto simp: find_Some_iff)
  then have "terminal (alert_status r')" using s by (auto simp: alert_settled_def list_all_iff)
  then show ?thesis using r' terminal_not_active by blast
qed

text \<open>
  Claim C7 as stated fails: the code performs the transitions \<open>done\<close> to \<open>cancelled\<close>
  and \<open>cancelled\<close> to \<open>done\<close>, and \<open>update_alert_status\<close> itself sets a \<open>done\<close>
  alert back to \<open>active\<close> when asked to.
\<close>

theorem alert_transitions_counterexample:
  "create_alert ''a1'' 1 ''session'' ''Call mum'' ''Call mum'' (Some ''2026-01-01T09:00:00+05:30'')
       (8 / 10) (Some ''s1'') None init_db = Inr (''a1'', alert_demo ''active'' 1)
   \<and> mark_alert_done 2 ''a1'' (alert_demo ''active'' 1) = Inr (True, alert_demo ''done'' 2)
   \<and> mark_alert_cancelled 3 ''a1'' (alert_demo ''done'' 2) = Inr (True, alert_demo ''cancelled'' 3)
   \<and> mark_alert_done 4 ''a1'' (alert_demo ''cancelled'' 3) = Inr (True, alert_demo ''done'' 4)
   \<and> update_alert_status 5 ''a1'' ''active'' (alert_demo ''done'' 4) = Inr (True, alert_demo ''active'' 5)"
  by (simp add: create_alert_def mark_alert_done_def mark_alert_cancelled_def
        update_alert_status_def alert_demo_def init_db_def)

theorem alert_terminal_stays_terminal_witness:
  "hd (tbl_alerts (alert_demo ''done'' 2)) \<in> set (tbl_alerts (alert_demo ''done'' 2))
   \<and> terminal (alert_status (hd (tbl_alerts (alert_demo ''done'' 2))))
   \<and> distinct (map alert_id (tbl_alerts (alert_demo ''done'' 2)))
   \<and> (\<exists>r'. find (\<lambda>x. alert_id x = ''a1'')
               (tbl_alerts (run_alert_ops [MarkCancelled 3 ''a1'', MarkDone 4 ''a1'']
                  (alert_demo ''done'' 2))) = Some r'
          \<and> terminal (alert_status r') \<and> alert_status r' \<noteq> ''active'')
   \<and> run_alert_ops [MarkCancelled 3 ''a1'', MarkDone 4 ''a1''] (alert_demo ''done'' 2)
       = alert_demo ''done'' 4"
proof -
  have a: "hd (tbl_alerts (alert_demo ''done'' 2)) \<in> set (tbl_alerts (alert_demo ''done'' 2))"
    by (simp add: alert_demo_def)
  have b: "terminal (alert_status (hd (tbl_alerts (alert_demo ''done'' 2))))"
    by (simp add: alert_demo_def terminal_def)
  have c: "distinct (map alert_id (tbl_alerts (alert_demo ''done'' 2)))"
    by (simp add: alert_demo_def)
  have i: "alert_id (hd (tbl_alerts (alert_demo ''done'' 2))) = ''a1''"
    by (simp add: alert_demo_def)
  have e: "run_alert_ops [MarkCancelled 3 ''a1'', MarkDone 4 ''a1''] (alert_demo ''done'' 2)
       = alert_demo ''done'' 4"
    by (simp add: mark_alert_done_def mark_alert_cancelled_def
        update_alert_status_def alert_demo_def init_db_def)
  from alert_terminal_stays_terminal [OF a b c, of "[MarkCancelled 3 ''a1'', MarkDone 4 ''a1'']"]
  have "\<exists>r'. find (\<lambda>x. alert_id x = ''a1'')
               (tbl_alerts (run_alert_ops [MarkCancelled 3 ''a1'', MarkDone 4 ''a1'']
                  (alert_demo ''done'' 2))) = Some r'
          \<and> terminal (alert_status r') \<and> alert_status r' \<noteq> ''active''"
    unfolding i .
  with a b c e show ?thesis by blast
qed

subsection \<open>Extraction context\<close>

text \<open>
  Claim C5. In a session of 51 messages the context handed to the extraction is messages
  40 to 49 (counting from 0): the last ten of the 50 oldest, since \<open>get_messages\<close> orders
  by ascending creation time before it applies \<open>LIMIT 50\<close>. The ten most recently created
  messages are 41 to 50; the newest message is not part of the context.
\<close>

theorem recent_context_long_session:
  "recent_context 10 ''s1'' (long_session 51) =
     map (\<lambda>i. (msg_role (demo_message i), msg_content (demo_message i))) [40..<50]
   \<and> py_last 10 (map (\<lambda>m. (msg_role m, msg_content m))
        (filter (\<lambda>m. msg_session_id m = ''s1'') (tbl_messages (long_session 51)))) =
     map (\<lambda>i. (msg_role (demo_message i), msg_content (demo_message i))) [41..<51]
   \<and> recent_context 10 ''s1'' (long_session 51) \<noteq>
     py_last 10 (map (\<lambda>m. (msg_role m, msg_content m))
        (filter (\<lambda>m. msg_session_id m = ''s1'') (tbl_messages (long_session 51))))"
  by code_simp

subsection \<open>Validation of extracted memory candidates\<close>

lemma validate_items_append:
  "validate_items fs thr allow (xs @ ys) = validate_items fs thr allow xs @ validate_items fs thr allow ys"
  by (induction xs) (auto split: option.splits)

lemma take_five_split:
  "length pre < 5 \<Longrightarrow> take 5 (pre @ x # post) = pre @ x # take (4 - length pre) post"
  by (simp add: Suc_diff_le take_Cons')

lemma validate_candidate_valid:
  assumes "map_of it ''scope'' = Some (JStr scope)" and "scope \<in> set allow_scopes"
      and "map_of it ''key'' = Some (JStr key)" and "1 \<le> length key" and "length key \<le> 64"
      and "key_pattern key"
      and "map_of it ''value'' = Some (JStr val)" and "1 \<le> length val" and "length val \<le> 400"
  shows "validate_candidate fs thr allow_scopes (JObj it) =
           (if float_lt (Fin (candidate_confidence fs it)) thr then None
            else Some \<lparr>item_scope = scope, item_key = key, item_value = py_strip val,
                       item_confidence = candidate_confidence fs it\<rparr>)"
  using assms by (simp add: validate_candidate_def json_get_def)

text \<open>
  Claim C8, as amended. A candidate with valid scope, key and value that is among the
  first five entries of \<open>items\<close> contributes nothing to the accepted items when its clamped
  confidence is strictly below the threshold, and contributes itself (value stripped,
  confidence clamped) otherwise, between what the entries before it and the entries after
  it (up to the fifth) contribute.
\<close>

theorem validate_threshold_first_five:
  assumes items: "map_of data ''items'' = Some (JArr (pre @ JObj it # post))"
      and pos: "length pre < 5"
      and scope: "map_of it ''scope'' = Some (JStr scope)" "scope \<in> set allow_scopes"
      and key: "map_of it ''key'' = Some (JStr key)" "1 \<le> length key" "length key \<le> 64"
               "key_pattern key"
      and val: "map_of it ''value'' = Some (JStr val)" "1 \<le> length val" "length val \<le> 400"
  shows "fst (validate_mx1_output fs data thr allow_scopes) =
           validate_items fs thr allow_scopes pre
           @ (if float_lt (Fin (candidate_confidence fs it)) thr then []
              else [\<lparr>item_scope = scope, item_key = key, item_value = py_strip val,
                     item_confidence = candidate_confidence fs it\<rparr>])
           @ validate_items fs thr allow_scopes (take (4 - length pre) post)"
proof -
  have "fst (validate_mx1_output fs data thr allow_scopes) =
          validate_items fs thr allow_scopes (take 5 (pre @ JObj it # post))"
    using items by (simp add: validate_mx1_output_def json_get_def Let_def)
  also have "\<dots> = validate_items fs thr allow_scopes pre
          @ validate_items fs thr allow_scopes (JObj it # take (4 - length pre) post)"
    by (simp only: take_five_split [OF pos] validate_items_append)
  finally show ?thesis
    by (simp add: validate_candidate_valid [OF scope key val])
qed

text \<open>
  Claim C8 as stated fails for a sixth candidate: six valid candidates of confidence
  \<open>1.0\<close> under threshold \<open>0.8\<close>; the sixth is dropped although its clamped confidence is
  not below the threshold.
\<close>

theorem validate_sixth_candidate_counterexample:
  "map item_key (fst (validate_mx1_output no_float_of_str
       [(''items'', JArr (map (\<lambda>k. candidate ''session'' k ''likes tea'' (JFloat (Fin 1)))
                            [''k1'', ''k2'', ''k3'', ''k4'', ''k5'', ''k6'']))]
       (Fin (8 / 10)) [''global'', ''session''])) = [''k1'', ''k2'', ''k3'', ''k4'', ''k5'']
   \<and> \<not> float_lt (Fin (candidate_confidence no_float_of_str
            [(''scope'', JStr ''session''), (''key'', JStr ''k6''), (''value'', JStr ''likes tea''),
             (''confidence'', JFloat (Fin 1))])) (Fin (8 / 10))
   \<and> key_pattern ''k6''"
  by (simp add: validate_mx1_output_def json_get_def candidate_def validate_candidate_def
        key_pattern_def candidate_confidence_def py_float_def clamp01_def py_strip_def
        py_isspace_def Let_def)

theorem validate_threshold_first_five_witness:
  "map_of [(''items'', JArr ([candidate ''session'' ''k1'' ''tea'' (JFloat (Fin (79 / 100)))]
        @ JObj [(''scope'', JStr ''session''), (''key'', JStr ''k2''), (''value'', JStr ''tea''),
                (''confidence'', JFloat (Fin (80 / 100)))] # []))] ''items'' =
     Some (JArr ([candidate ''session'' ''k1'' ''tea'' (JFloat (Fin (79 / 100)))]
        @ JObj [(''scope'', JStr ''session''), (''key'', JStr ''k2''), (''value'', JStr ''tea''),
                (''confidence'', JFloat (Fin (80 / 100)))] # []))
   \<and> length [candidate ''session'' ''k1'' ''tea'' (JFloat (Fin (79 / 100)))] < 5
   \<and> ''session'' \<in> set [''global'', ''session'']
   \<and> 1 \<le> length ''k2'' \<and> length ''k2'' \<le> 64 \<and> key_pattern ''k2''
   \<and> 1 \<le> length ''tea'' \<and> length ''tea'' \<le> 400
   \<and> fst (validate_mx1_output no_float_of_str
        [(''items'', JArr ([candidate ''session'' ''k1'' ''tea'' (JFloat (Fin (79 / 100)))]
        @ JObj [(''scope'', JStr ''session''), (''key'', JStr ''k2''), (''value'', JStr ''tea''),
                (''confidence'', JFloat (Fin (80 / 100)))] # []))]
        (Fin (8 / 10)) [''global'', ''session'']) =
       [\<lparr>item_scope = ''session'', item_key = ''k2'', item_value = ''tea'',
         item_confidence = 80 / 100\<rparr>]"
proof -
  let ?it = "[(''scope'', JStr ''session''), (''key'', JStr ''k2''), (''value'', JStr ''tea''),
                (''confidence'', JFloat (Fin (80 / 100)))]"
  let ?pre = "[candidate ''session'' ''k1'' ''tea'' (JFloat (Fin (79 / 100)))]"
  let ?data = "[(''items'', JArr (?pre @ JObj ?it # []))]"
  have items: "map_of ?data ''items'' = Some (JArr (?pre @ JObj ?it # []))" by simp
  have pos: "length ?pre < 5" by simp
  have scope: "map_of ?it ''scope'' = Some (JStr ''session'')"
    "''session'' \<in> set [''global'', ''session'']" by simp_all
  have key: "map_of ?it ''key'' = Some (JStr ''k2'')" "1 \<le> length ''k2''" "length ''k2'' \<le> 64"
    "key_pattern ''k2''" by (simp_all add: key_pattern_def)
  have val: "map_of ?it ''value'' = Some (JStr ''tea'')" "1 \<le> length ''tea''"
    "length ''tea'' \<le> 400" by simp_all
  have c2: "candidate_confidence no_float_of_str ?it = 80 / 100"
    by (simp add: candidate_confidence_def json_get_def py_float_def clamp01_def)
  have pre: "validate_items no_float_of_str (Fin (8 / 10)) [''global'', ''session''] ?pre = []"
    by (simp add: candidate_def validate_candidate_def json_get_def key_pattern_def
          candidate_confidence_def py_float_def clamp01_def)
  have strip: "py_strip ''tea'' = ''tea''"
    by (simp add: py_strip_def py_isspace_def)
  have "fst (validate_mx1_output no_float_of_str ?data (Fin (8 / 10)) [''global'', ''session'']) =
       [\<lparr>item_scope = ''session'', item_key = ''k2'', item_value = ''tea'',
         item_confidence = 80 / 100\<rparr>]"
    unfolding validate_threshold_first_five [OF items pos scope key val,
        of no_float_of_str "Fin (8 / 10)"] c2 pre strip
    by simp
  with items pos scope(2) key(2,3,4) val(2,3) show ?thesis by blast
qed

subsection \<open>Judge gate\<close>






lemma demo_env_judge [simp]:
  "JUDGE_ENABLED (demo_env r)"
  "judge_prompts (demo_env r) p ms u d = Inr (''judge system'', ''judge user'')"
  "judge_ollama_chat (demo_env r) sp up n = (r, Suc n)"
  "json_loads (demo_env r) = demo_loads"
  "py_repr (demo_env r) v = ''?''"
  by (simp_all add: demo_env_def)


subsection \<open>Summary cadence\<close>

lemma upsert_memory_item_frame:
  "upsert_memory_item new_id now scope key val c sid src d = Inr (r, d') \<Longrightarrow>
     tbl_session_summaries d' = tbl_session_summaries d \<and> tbl_messages d' = tbl_messages d
     \<and> tbl_alerts d' = tbl_alerts d \<and> tbl_sessions d' = tbl_sessions d
     \<and> tbl_tool_settings d' = tbl_tool_settings d"
  by (auto simp: upsert_memory_item_def split: option.splits if_splits)

lemma upsert_items_frame:
  "upsert_items E sid items k (d, x) = (r, (d', x')) \<Longrightarrow>
     tbl_session_summaries d' = tbl_session_summaries d \<and> tbl_messages d' = tbl_messages d
     \<and> tbl_alerts d' = tbl_alerts d \<and> tbl_sessions d' = tbl_sessions d
     \<and> tbl_tool_settings d' = tbl_tool_settings d"
proof (induction items arbitrary: k d x)
  case Nil
  then show ?case by simp
next
  case (Cons it rest)
  obtain new_id x1 where u: "uuid4 E x = (new_id, x1)" by (cases "uuid4 E x")
  obtain now x2 where n: "utc_now E x1 = (now, x2)" by (cases "utc_now E x1")
  show ?case
  proof (cases "upsert_memory_item new_id now (item_scope it) (item_key it) (item_value it)
                       (item_confidence it)
                       (if item_scope it = ''session'' then Some sid else None) None d")
    case (Inl e)
    then show ?thesis using Cons.prems u n by simp
  next
    case (Inr p)
    obtain mid d1 where p: "p = (mid, d1)" by (cases p)
    from Inr p have f: "tbl_session_summaries d1 = tbl_session_summaries d \<and> tbl_messages d1 = tbl_messages d
     \<and> tbl_alerts d1 = tbl_alerts d \<and> tbl_sessions d1 = tbl_sessions d
     \<and> tbl_tool_settings d1 = tbl_tool_settings d"
      using upsert_memory_item_frame by blast
    from Cons.prems u n Inr p have "upsert_items E sid rest (Suc k) (d1, x2) = (r, (d', x'))"
      by simp
    from Cons.IH [OF this] f show ?thesis by simp
  qed
qed


lemma upsert_session_summary_frame:
  "tbl_messages (upsert_session_summary now sid text loops d) = tbl_messages d
   \<and> tbl_alerts (upsert_session_summary now sid text loops d) = tbl_alerts d
   \<and> tbl_memory_items (upsert_session_summary now sid text loops d) = tbl_memory_items d
   \<and> tbl_sessions (upsert_session_summary now sid text loops d) = tbl_sessions d
   \<and> tbl_tool_settings (upsert_session_summary now sid text loops d) = tbl_tool_settings d"
  by (simp add: upsert_session_summary_def split: option.splits)












subsection \<open>Turn orchestrator\<close>

lemma cd_uuid4: "counts_drafts E cnt \<Longrightarrow> uuid4 E x = (r, x') \<Longrightarrow> cnt x' = cnt x"
  unfolding counts_drafts_def by (metis snd_conv)

lemma cd_utc_now: "counts_drafts E cnt \<Longrightarrow> utc_now E x = (r, x') \<Longrightarrow> cnt x' = cnt x"
  unfolding counts_drafts_def by (metis snd_conv)

lemma cd_judge: "counts_drafts E cnt \<Longrightarrow> judge_ollama_chat E sp up x = (r, x') \<Longrightarrow> cnt x' = cnt x"
  unfolding counts_drafts_def by (metis snd_conv)

lemma cd_mx1: "counts_drafts E cnt \<Longrightarrow> run_mx1_ollama E p x = (r, x') \<Longrightarrow> cnt x' = cnt x"
  unfolding counts_drafts_def by (metis snd_conv)

lemma cd_alerts: "counts_drafts E cnt \<Longrightarrow> extract_alerts E ctx x = (r, x') \<Longrightarrow> cnt x' = cnt x"
  unfolding counts_drafts_def by (metis snd_conv)

lemma cd_chat: "counts_drafts E cnt \<Longrightarrow> ollama_chat E sp h m x = (r, x') \<Longrightarrow> cnt x' = Suc (cnt x)"
  unfolding counts_drafts_def by (metis snd_conv)

lemma create_alert_messages:
  "create_alert new_id now scope title body due c sid src d = Inr (i, d') \<Longrightarrow>
     tbl_messages d' = tbl_messages d"
  by (auto simp: create_alert_def split: if_splits)

lemma execute_alert_loop_frame:
  "execute_alert_loop E sid scope alerts evs (d, x) = (r, (d', x')) \<Longrightarrow>
     tbl_messages d' = tbl_messages d \<and> (counts_drafts E cnt \<longrightarrow> cnt x' = cnt x)"
proof (induction alerts arbitrary: evs d x)
  case Nil
  then show ?case by simp
next
  case (Cons alert_data rest)
  note IH = Cons.IH
  show ?case
  proof (cases alert_data)
    case (JObj a)
    let ?title = "str_or_empty E (json_get a ''title'' JNull)"
    let ?due = "str_or_empty E (json_get a ''due_at'' JNull)"
    show ?thesis
    proof (cases "?title = [] \<or> ?due = []")
      case True
      then have "execute_alert_loop E sid scope rest evs (d, x) = (r, (d', x'))"
        using Cons.prems JObj by (auto simp: Let_def)
      then show ?thesis by (rule IH)
    next
      case False
      show ?thesis
      proof (cases "alert_confidence_of E (json_get a ''confidence'' (JFloat (Fin (8 / 10))))")
        case None
        then have "execute_alert_loop E sid scope rest evs (d, x) = (r, (d', x'))"
          using Cons.prems JObj False by (auto simp: Let_def)
        then show ?thesis by (rule IH)
      next
        case (Some confidence)
        obtain new_id x1 where u: "uuid4 E x = (new_id, x1)" by (cases "uuid4 E x")
        obtain now x2 where n: "utc_now E x1 = (now, x2)" by (cases "utc_now E x1")
        have c2: "counts_drafts E cnt \<longrightarrow> cnt x2 = cnt x"
          using cd_uuid4 [OF _ u, of cnt] cd_utc_now [OF _ n, of cnt] by simp
        from Cons.prems JObj False Some u n
        consider (same) "execute_alert_loop E sid scope rest evs (d, x2) = (r, (d', x'))"
          | (created) aid d1 src where
              "create_alert new_id now scope ?title (str_or_empty E (json_get a ''body'' JNull))
                 (Some ?due) confidence (if scope = ''session'' then sid else None) src d = Inr (aid, d1)"
              "execute_alert_loop E sid scope rest (evs @ [created_event aid ?title ?due]) (d1, x2)
                 = (r, (d', x'))"
          by (auto simp: Let_def split: sum.splits prod.splits)
        then show ?thesis
        proof cases
          case same
          from IH [OF same] c2 show ?thesis by simp
        next
          case created
          from IH [OF created(2)] create_alert_messages [OF created(1)] c2 show ?thesis by simp
        qed
      qed
    qed
  qed (use Cons.prems IH in auto)
qed

lemma alerts_tool_run_frame:
  "alerts_tool_run E ctx (d, x) = (r, (d', x')) \<Longrightarrow>
     tbl_messages d' = tbl_messages d \<and> (counts_drafts E cnt \<longrightarrow> cnt x' = cnt x)"
proof -
  assume run: "alerts_tool_run E ctx (d, x) = (r, (d', x'))"
  obtain er x1 where ex: "extract_alerts E ctx x = (er, x1)" by (cases "extract_alerts E ctx x")
  have c1: "counts_drafts E cnt \<longrightarrow> cnt x1 = cnt x" using cd_alerts [OF _ ex, of cnt] by simp
  show ?thesis
  proof (cases er)
    case (Inl e)
    then show ?thesis using run ex c1 by (auto simp: alerts_tool_run_def)
  next
    case (Inr alerts)
    show ?thesis
    proof (cases "alerts = []")
      case True
      then show ?thesis using run ex Inr c1 by (auto simp: alerts_tool_run_def)
    next
      case False
      obtain created d2 x2 where cr: "execute_alert_loop E (Some (ctx_session_id ctx)) ''session''
          (take 2 alerts) [] (d, x1) = (created, (d2, x2))"
        by (cases "execute_alert_loop E (Some (ctx_session_id ctx)) ''session'' (take 2 alerts) [] (d, x1)")
           auto
      from execute_alert_loop_frame [OF cr, of cnt]
      have f: "tbl_messages d2 = tbl_messages d" "counts_drafts E cnt \<longrightarrow> cnt x2 = cnt x1"
        by auto
      have "d' = d2" "x' = x2"
        using run ex Inr False cr
        by (auto simp: alerts_tool_run_def execute_alert_creation_def split: if_splits)
      then show ?thesis using f c1 by auto
    qed
  qed
qed

lemma list_tools_build_registry: "list_tools (build_tools_registry E) = [AlertsTool E]"
  by (simp add: build_tools_registry_def register_def list_tools_def)

lemma run_tools_registry_frame:
  "run_tools (build_tools_registry E) ctx em (d, x) = (evs, (d', x')) \<Longrightarrow>
     tbl_messages d' = tbl_messages d \<and> (counts_drafts E cnt \<longrightarrow> cnt x' = cnt x)"
proof -
  assume run: "run_tools (build_tools_registry E) ctx em (d, x) = (evs, (d', x'))"
  show ?thesis
  proof (cases "enabled_get em ''alerts''")
    case False
    then show ?thesis using run
      by (simp add: run_tools_def list_tools_build_registry AlertsTool_def)
  next
    case True
    obtain r d1 x1 where a: "alerts_tool_run E ctx (d, x) = (r, (d1, x1))"
      by (cases "alerts_tool_run E ctx (d, x)") auto
    have "d' = d1" "x' = x1"
      using run True a
      by (auto simp: run_tools_def list_tools_build_registry AlertsTool_def split: sum.splits)
    with alerts_tool_run_frame [OF a, of cnt] show ?thesis by simp
  qed
qed

lemma upsert_items_cnt:
  "counts_drafts E cnt \<Longrightarrow> upsert_items E sid items k (d, x) = (r, (d', x')) \<Longrightarrow> cnt x' = cnt x"
proof (induction items arbitrary: k d x)
  case Nil
  then show ?case by simp
next
  case (Cons it rest)
  obtain new_id x1 where u: "uuid4 E x = (new_id, x1)" by (cases "uuid4 E x")
  obtain now x2 where n: "utc_now E x1 = (now, x2)" by (cases "utc_now E x1")
  have c2: "cnt x2 = cnt x"
    using cd_uuid4 [OF Cons.prems(1) u] cd_utc_now [OF Cons.prems(1) n] by simp
  show ?case
  proof (cases "upsert_memory_item new_id now (item_scope it) (item_key it) (item_value it)
                       (item_confidence it)
                       (if item_scope it = ''session'' then Some sid else None) None d")
    case (Inl e)
    then show ?thesis using Cons.prems u n c2 by simp
  next
    case (Inr p)
    obtain mid d1 where p: "p = (mid, d1)" by (cases p)
    from Cons.prems u n Inr p have "upsert_items E sid rest (Suc k) (d1, x2) = (r, (d', x'))"
      by simp
    from Cons.IH [OF Cons.prems(1) this] c2 show ?thesis by simp
  qed
qed

lemma extract_mx1_cnt:
  assumes "counts_drafts E cnt" and "extract_mx1 E persona ss recent x = (r, x')"
  shows "cnt x' = cnt x"
proof (cases "build_mx1_prompt E persona ss recent (ALLOW_GLOBAL_WRITE E)")
  case (Inl e)
  then show ?thesis using assms(2) by (simp add: extract_mx1_def)
next
  case (Inr prompt)
  obtain rr x1 where m: "run_mx1_ollama E prompt x = (rr, x1)" by (cases "run_mx1_ollama E prompt x")
  have "x' = x1"
    using assms(2) Inr m by (cases rr) (auto simp: extract_mx1_def Let_def split: prod.splits)
  then show ?thesis using cd_mx1 [OF assms(1) m] by simp
qed

lemma pipeline_try_frame:
  assumes run: "pipeline_try E sid persona debug0 (d, x) = (res, debug', (d1, x1))"
  shows "tbl_messages d1 = tbl_messages d \<and> (counts_drafts E cnt \<longrightarrow> cnt x1 = cnt x)"
proof (cases "py_mod (count_messages sid d) (SUMMARY_CADENCE E)")
  case (Inl e)
  then show ?thesis using run by (auto simp: pipeline_try_def Let_def)
next
  case (Inr m)
  let ?recent = "recent_context (MX1_RECENT_MESSAGES E) sid d"
  obtain er xa where ex: "extract_mx1 E persona (get_session_summary sid d) ?recent x = (er, xa)"
    by (cases "extract_mx1 E persona (get_session_summary sid d) ?recent x")
  have ca: "counts_drafts E cnt \<longrightarrow> cnt xa = cnt x"
    using extract_mx1_cnt [OF _ ex, of cnt] by simp
  show ?thesis
  proof (cases er)
    case (Inl e)
    then show ?thesis using run Inr ex ca by (auto simp: pipeline_try_def Let_def)
  next
    case t: (Inr t)
    obtain items patch raw where tt: "t = (items, patch, raw)" by (cases t)
    obtain ur d2 x2 where up: "upsert_items E sid items 0 (d, xa) = (ur, (d2, x2))"
      by (cases "upsert_items E sid items 0 (d, xa)") auto
    have f2: "tbl_messages d2 = tbl_messages d" using upsert_items_frame [OF up] by simp
    have c2: "counts_drafts E cnt \<longrightarrow> cnt x2 = cnt x"
      using upsert_items_cnt [OF _ up, of cnt] ca by simp
    show ?thesis
    proof (cases ur)
      case (Inl e)
      then show ?thesis using run Inr ex t tt up f2 c2 by (auto simp: pipeline_try_def Let_def)
    next
      case u: (Inr upserted)
      obtain now x3 where nw: "utc_now E x2 = (now, x3)" by (cases "utc_now E x2")
      have c3: "counts_drafts E cnt \<longrightarrow> cnt x3 = cnt x"
        using cd_utc_now [OF _ nw, of cnt] c2 by simp
      show ?thesis using run Inr ex t tt up u nw f2 c2 c3
        by (auto simp: pipeline_try_def Let_def upsert_session_summary_frame split: if_splits)
    qed
  qed
qed

lemma pipeline_except_frame:
  assumes run: "pipeline_except E sid e debug1 (d1, x1) = (debug, (d', x'))"
  shows "tbl_messages d' = tbl_messages d1 \<and> (counts_drafts E cnt \<longrightarrow> cnt x' = cnt x1)"
proof -
  obtain now x2 where nw: "utc_now E x1 = (now, x2)" by (cases "utc_now E x1")
  have c: "counts_drafts E cnt \<longrightarrow> cnt x2 = cnt x1" using cd_utc_now [OF _ nw, of cnt] by simp
  show ?thesis using run nw c
    by (auto simp: pipeline_except_def Let_def upsert_session_summary_frame
             split: sum.splits if_splits)
qed

lemma run_post_chat_pipeline_frame:
  assumes run: "run_post_chat_pipeline E sid persona (d, x) = (debug, (d', x'))"
  shows "tbl_messages d' = tbl_messages d \<and> (counts_drafts E cnt \<longrightarrow> cnt x' = cnt x)"
proof -
  let ?debug0 = "\<lparr>dbg_session_id = sid, dbg_msg_count = None,
                    dbg_should_update_summary = None, dbg_memory_items_upserted = 0,
                    dbg_summary_updated = False, dbg_summary_len = 0, dbg_errors = []\<rparr>"
  obtain res debug1 d1 x1 where t: "pipeline_try E sid persona ?debug0 (d, x) = (res, debug1, (d1, x1))"
    by (cases "pipeline_try E sid persona ?debug0 (d, x)") auto
  note tf = pipeline_try_frame [OF t, of cnt]
  show ?thesis
  proof (cases res)
    case None
    then show ?thesis using run t tf by (simp add: run_post_chat_pipeline_def)
  next
    case (Some e)
    then have "pipeline_except E sid e debug1 (d1, x1) = (debug, (d', x'))"
      using run t by (simp add: run_post_chat_pipeline_def)
    from pipeline_except_frame [OF this, of cnt] tf show ?thesis by simp
  qed
qed

lemma run_judge_cnt:
  assumes "counts_drafts E cnt" and "run_judge E persona um ad mi x = (r, x')"
  shows "cnt x' = cnt x"
proof (cases "JUDGE_ENABLED E")
  case False
  then show ?thesis using assms(2) by (simp add: run_judge_def)
next
  case True
  show ?thesis
  proof (cases "judge_prompts E persona mi um ad")
    case (Inl e)
    then show ?thesis using assms(2) True by (simp add: run_judge_def)
  next
    case (Inr p)
    obtain st up where p: "p = (st, up)" by (cases p)
    obtain rr x1 where j: "judge_ollama_chat E st up x = (rr, x1)"
      by (cases "judge_ollama_chat E st up x")
    have "x' = x1" using assms(2) True Inr p j
      by (cases rr) (auto simp: run_judge_def split: sum.splits)
    then show ?thesis using cd_judge [OF assms(1) j] by simp
  qed
qed

lemma judge_retry_loop_cnt:
  "counts_drafts E cnt \<Longrightarrow>
   judge_retry_loop E persona mi sp msg attempts st x = (r, x') \<Longrightarrow>
     cnt x' \<le> cnt x + length attempts"
proof (induction attempts arbitrary: st x)
  case Nil
  then show ?case by simp
next
  case (Cons attempt rest)
  obtain cr x1 where c: "ollama_chat E sp (ls_current_history st) msg x = (cr, x1)"
    by (cases "ollama_chat E sp (ls_current_history st) msg x")
  have c1: "cnt x1 = Suc (cnt x)" using cd_chat [OF Cons.prems(1) c] .
  show ?case
  proof (cases cr)
    case (Inl e)
    then show ?thesis using Cons.prems(2) c c1 by simp
  next
    case (Inr draft)
    obtain jr x2 where j: "run_judge E persona msg draft mi x1 = (jr, x2)"
      by (cases "run_judge E persona msg draft mi x1")
    have c2: "cnt x2 = Suc (cnt x)" using run_judge_cnt [OF Cons.prems(1) j] c1 by simp
    show ?thesis
    proof (cases jr)
      case (Inl e)
      then show ?thesis using Cons.prems(2) c Inr j c2 by simp
    next
      case res: (Inr judge_res)
      from Cons.prems(2) c Inr j res
      consider (stop) "x' = x2"
        | (again) st' where "judge_retry_loop E persona mi sp msg rest st' x2 = (r, x')"
        by (auto simp: Let_def split: if_splits)
      then show ?thesis
      proof cases
        case stop
        then show ?thesis using c2 by simp
      next
        case again
        from Cons.IH [OF Cons.prems(1) again] c2 show ?thesis by simp
      qed
    qed
  qed
qed

lemma after_persist_frame:
  assumes "after_persist E req pid persona mi ft fs v jr (d2, xe) = (resp, (d', x'))"
  shows "tbl_messages d' = tbl_messages d2 \<and> (counts_drafts E cnt \<longrightarrow> cnt x' = cnt xe)
       \<and> resp_assistant resp = ft"
proof -
  obtain dbg d3 x3 where p: "run_post_chat_pipeline E (req_session_id req) persona (d2, xe) = (dbg, (d3, x3))"
    by (cases "run_post_chat_pipeline E (req_session_id req) persona (d2, xe)") auto
  note pf = run_post_chat_pipeline_frame [OF p, of cnt]
  let ?registry = "build_tools_registry E"
  let ?em = "get_effective_tool_enabled_map (req_session_id req) (map tool_id (list_tools ?registry)) d3"
  let ?ctx = "\<lparr>ctx_session_id = req_session_id req, ctx_persona = persona,
                            ctx_memory_items = mi,
                            ctx_session_summary = map_option summary_row_json
                               (get_session_summary (req_session_id req) d3),
                            ctx_recent_messages = py_last 10 (map (\<lambda>m. (msg_role m, msg_content m))
                               (get_messages (req_session_id req) 50 d3)),
                            ctx_user_message = req_message req,
                            ctx_assistant_final = fs,
                            ctx_ollama_base_url = ''http://ollama:11434'',
                            ctx_ollama_model = ''llama3.2:3b''\<rparr>"
  obtain evs d4 x4 where t: "run_tools ?registry ?ctx ?em (d3, x3) = (evs, (d4, x4))"
    by (cases "run_tools ?registry ?ctx ?em (d3, x3)") auto
  note tf = run_tools_registry_frame [OF t, of cnt]
  have "d' = d4" "x' = x4" "resp_assistant resp = ft"
    using assms p t by (auto simp: after_persist_def Let_def)
  then show ?thesis using pf tf by simp
qed

lemma add_message_rows:
  "add_message mid now sid role content d = Inr (r, d1) \<Longrightarrow>
     tbl_messages d1 = tbl_messages d @
       [\<lparr>msg_id = mid, msg_session_id = sid, msg_role = role, msg_content = content,
         msg_created_at = now\<rparr>]"
  by (auto simp: add_message_def split: if_splits)

lemma effect_user:
  "tbl_messages d' = tbl_messages d @ [user_row req uid unow] \<Longrightarrow>
     messages_effect E req d (Inl err) d'"
  by (auto simp: messages_effect_def)

lemma effect_both:
  "tbl_messages d' = tbl_messages d @ [user_row req uid unow, assistant_row req aid anow final] \<Longrightarrow>
   sql_text E (resp_assistant resp) = Inr final \<Longrightarrow>
     messages_effect E req d (Inr resp) d'"
  by (auto simp: messages_effect_def)

lemma chat_send_api_effect:
  assumes run: "chat_send_api E P req (d, x) = (res, (d', x'))"
  shows "(counts_drafts E cnt \<longrightarrow> cnt x' \<le> cnt x + 3) \<and> messages_effect E req d res d'"
proof (cases "get_session (req_session_id req) d")
  case None
  then show ?thesis using run by (auto simp: chat_send_api_def messages_effect_def)
next
  case (Some s)
  note s = Some
  let ?po = "(case P (ses_persona_id s) of None \<Rightarrow> None
               | Some p \<Rightarrow> if py_truthy p then Some p else None)"
  show ?thesis
  proof (cases ?po)
    case None
    then show ?thesis using run s by (auto simp: chat_send_api_def messages_effect_def)
  next
    case (Some persona)
    note po = Some
    show ?thesis
    proof (cases "memory_read_path persona (req_session_id req) d")
      case (Inl e)
      then show ?thesis using run s po by (auto simp: chat_send_api_def messages_effect_def)
    next
      case (Inr mem_items)
      note mi = Inr
      obtain uid xa where u: "uuid4 E x = (uid, xa)" by (cases "uuid4 E x")
      obtain unow xb where n: "utc_now E xa = (unow, xb)" by (cases "utc_now E xa")
      have cb: "counts_drafts E cnt \<longrightarrow> cnt xb = cnt x"
        using cd_uuid4 [OF _ u, of cnt] cd_utc_now [OF _ n, of cnt] by simp
      show ?thesis
      proof (cases "add_message uid unow (req_session_id req) ''user'' (req_message req) d")
        case (Inl e)
        then show ?thesis using run s po mi u n cb
          by (auto simp: chat_send_api_def messages_effect_def)
      next
        case (Inr p1)
        obtain umid d1 where p1: "p1 = (umid, d1)" by (cases p1)
        note am = Inr [unfolded p1]
        have m1: "tbl_messages d1 = tbl_messages d @ [user_row req uid unow]"
          using add_message_rows [OF am] by (simp add: user_row_def)
        let ?history = "map (\<lambda>m. (msg_role m, msg_content m))
                          (filter (\<lambda>m. msg_role m = ''user'' \<or> msg_role m = ''assistant'')
                             (get_messages (req_session_id req) 50 d1))"
        let ?names = "map tool_name (list_tools (build_tools_registry E))"
        show ?thesis
        proof (cases "build_system_prompt E persona mem_items ?names")
          case (Inl e)
          then show ?thesis using run s po mi u n am cb m1
            by (auto simp: chat_send_api_def Let_def intro!: effect_user)
        next
          case (Inr system_prompt)
          note sp = Inr
          let ?st0 = "\<lparr>ls_current_history = butlast ?history,
                          ls_final_text = JStr [], ls_verdict = ''PASS'',
                          ls_judge_result = None, ls_assistant_draft = None\<rparr>"
          obtain lr xc where lp: "judge_retry_loop E persona mem_items system_prompt (req_message req)
                                     [0, 1, 2] ?st0 xb = (lr, xc)"
            by (cases "judge_retry_loop E persona mem_items system_prompt (req_message req)
                                     [0, 1, 2] ?st0 xb")
          have cc: "counts_drafts E cnt \<longrightarrow> cnt xc \<le> cnt x + 3"
            using judge_retry_loop_cnt [OF _ lp, of cnt] cb by (auto simp: numeral_3_eq_3)
          show ?thesis
          proof (cases lr)
            case (Inl err)
            then show ?thesis using run s po mi u n am sp lp cc m1
              by (auto simp: chat_send_api_def Let_def intro!: effect_user)
          next
            case (Inr st)
            note st = Inr
            let ?ft = "(if \<not> py_truthy (ls_final_text st)
                        then (case ls_assistant_draft st of
                                None \<Rightarrow> Inl ''name assistant_draft is not defined''
                              | Some dr \<Rightarrow> Inr (JStr dr))
                        else Inr (ls_final_text st))"
            show ?thesis
            proof (cases ?ft)
              case (Inl e)
              then show ?thesis using run s po mi u n am sp lp st cc m1
                by (auto simp: chat_send_api_def Let_def intro!: effect_user)
            next
              case (Inr final_text)
              note ft = Inr
              obtain aid xd where ua: "uuid4 E xc = (aid, xd)" by (cases "uuid4 E xc")
              obtain anow xe where na: "utc_now E xd = (anow, xe)" by (cases "utc_now E xd")
              have ce: "counts_drafts E cnt \<longrightarrow> cnt xe \<le> cnt x + 3"
                using cd_uuid4 [OF _ ua, of cnt] cd_utc_now [OF _ na, of cnt] cc by simp
              show ?thesis
              proof (cases "sql_text E final_text")
                case (Inl e)
                then show ?thesis using run s po mi u n am sp lp st ft ua na ce m1
                  by (auto simp: chat_send_api_def Let_def intro!: effect_user)
              next
                case (Inr final_str)
                note fs = Inr
                show ?thesis
                proof (cases "add_message aid anow (req_session_id req) ''assistant'' final_str d1")
                  case (Inl e)
                  then show ?thesis using run s po mi u n am sp lp st ft ua na fs ce m1
                    by (auto simp: chat_send_api_def Let_def intro!: effect_user)
                next
                  case (Inr p2)
                  obtain amid d2 where p2: "p2 = (amid, d2)" by (cases p2)
                  note am2 = Inr [unfolded p2]
                  have m2: "tbl_messages d2 = tbl_messages d @
                              [user_row req uid unow, assistant_row req aid anow final_str]"
                    using add_message_rows [OF am2] m1 by (simp add: assistant_row_def)
                  let ?verdict = "(if ls_verdict st = ''REWRITE'' \<and> py_truthy final_text
                                   then ''PASS'' else ls_verdict st)"
                  obtain resp w' where ap: "after_persist E req (ses_persona_id s) persona mem_items
                       final_text final_str ?verdict (ls_judge_result st) (d2, xe) = (resp, w')"
                    by (cases "after_persist E req (ses_persona_id s) persona mem_items
                       final_text final_str ?verdict (ls_judge_result st) (d2, xe)")
                  have r: "res = Inr resp" "w' = (d', x')"
                    using run s po mi u n am sp lp st ft ua na fs am2 ap
                    by (auto simp: chat_send_api_def Let_def)
                  from after_persist_frame [OF ap [unfolded r(2)], of cnt]
                  have "tbl_messages d' = tbl_messages d2"
                       "counts_drafts E cnt \<longrightarrow> cnt x' = cnt xe" "resp_assistant resp = final_text"
                    by simp_all
                  then show ?thesis using r(1) m2 ce fs
                    by (auto intro!: effect_both)
                qed
              qed
            qed
          qed
        qed
      qed
    qed
  qed
qed

lemma counts_drafts_counting: "counts_drafts (counting E) snd"
  by (auto simp: counts_drafts_def counting_def split: prod.splits)

text \<open>
  Claim C1. Whatever the model backend and the judge answer, a request makes at most
  three draft calls: in an environment where \<open>cnt\<close> counts the calls of \<open>ollama_chat\<close>,
  the count after \<open>chat_send_api\<close> exceeds the count before by at most 3, and so it does
  after the retry loop alone.
\<close>

theorem draft_attempts_at_most_three:
  assumes "counts_drafts E cnt"
  shows "cnt (snd (snd (chat_send_api E P req (d, x)))) \<le> cnt x + 3
       \<and> cnt (snd (judge_retry_loop E persona mem_items system_prompt message [0, 1, 2] st x))
           \<le> cnt x + 3"
proof
  obtain res d' x' where r: "chat_send_api E P req (d, x) = (res, (d', x'))"
    by (cases "chat_send_api E P req (d, x)") auto
  from chat_send_api_effect [OF r, of cnt] assms r
  show "cnt (snd (snd (chat_send_api E P req (d, x)))) \<le> cnt x + 3" by simp
next
  obtain r x' where l: "judge_retry_loop E persona mem_items system_prompt message [0, 1, 2] st x = (r, x')"
    by (cases "judge_retry_loop E persona mem_items system_prompt message [0, 1, 2] st x")
  from judge_retry_loop_cnt [OF assms l] l
  show "cnt (snd (judge_retry_loop E persona mem_items system_prompt message [0, 1, 2] st x))
           \<le> cnt x + 3" by (simp add: numeral_3_eq_3)
qed

theorem draft_attempts_at_most_three_witness:
  "counts_drafts rewrite_env snd
   \<and> snd (snd (snd (chat_send_api rewrite_env demo_personas demo_req (chat_db, (0, 0))))) \<le>
       snd (0 :: nat, 0 :: nat) + 3
   \<and> snd (snd (snd (chat_send_api rewrite_env demo_personas demo_req (chat_db, (0, 0))))) = 3"
proof -
  have c: "counts_drafts rewrite_env snd"
    unfolding rewrite_env_def by (rule counts_drafts_counting)
  have e: "snd (snd (snd (chat_send_api rewrite_env demo_personas demo_req (chat_db, (0, 0))))) = 3"
    by code_simp
  from draft_attempts_at_most_three [OF c, of demo_personas demo_req chat_db "(0, 0)",
      THEN conjunct1] c e
  show ?thesis by simp
qed

text \<open>
  Claim C10, as amended. A request that returns a response has appended exactly two
  messages, the user message and the final assistant reply; a request that ends with an
  error has appended nothing or the user message alone. No rejected draft and no feedback
  is ever stored: they exist only in \<open>current_history\<close>.
\<close>

theorem chat_send_api_messages:
  assumes "chat_send_api E P req (d, x) = (res, (d', x'))"
  shows "messages_effect E req d res d'"
  using chat_send_api_effect [OF assms] by simp

text \<open>
  Claim C10 as stated fails for a turn whose draft generation fails: the user message is
  stored before the draft is requested, the request ends with the 502 error, and one
  message has been appended.
\<close>

theorem chat_send_api_one_message_counterexample:
  "chat_send_api down_env demo_personas demo_req (chat_db, 0) =
     (Inl (HTTPException 502 ''Ollama chat failed: connection refused''),
      (chat_db\<lparr>tbl_messages :=
          [\<lparr>msg_id = ''id0'', msg_session_id = ''s1'', msg_role = ''user'',
            msg_content = ''hello'', msg_created_at = 1\<rparr>]\<rparr>, 3))"
  by code_simp

theorem chat_send_api_messages_witness:
  "chat_send_api rewrite_env demo_personas demo_req (chat_db, (0, 0)) =
     (fst (chat_send_api rewrite_env demo_personas demo_req (chat_db, (0, 0))),
      (fst (snd (chat_send_api rewrite_env demo_personas demo_req (chat_db, (0, 0)))),
       snd (snd (chat_send_api rewrite_env demo_personas demo_req (chat_db, (0, 0))))))
   \<and> messages_effect rewrite_env demo_req chat_db
        (fst (chat_send_api rewrite_env demo_personas demo_req (chat_db, (0, 0))))
        (fst (snd (chat_send_api rewrite_env demo_personas demo_req (chat_db, (0, 0)))))
   \<and> \<not> isl (fst (chat_send_api rewrite_env demo_personas demo_req (chat_db, (0, 0))))
   \<and> tbl_messages (fst (snd (chat_send_api rewrite_env demo_personas demo_req (chat_db, (0, 0))))) =
       [\<lparr>msg_id = ''id0'', msg_session_id = ''s1'', msg_role = ''user'',
         msg_content = ''hello'', msg_created_at = 1\<rparr>,
        \<lparr>msg_id = ''id8'', msg_session_id = ''s1'', msg_role = ''assistant'',
         msg_content = ''draft'', msg_created_at = 9\<rparr>]"
proof -
  let ?r = "chat_send_api rewrite_env demo_personas demo_req (chat_db, (0, 0))"
  have p: "?r = (fst ?r, (fst (snd ?r), snd (snd ?r)))" by simp
  have i: "\<not> isl (fst ?r)" by code_simp
  have m: "tbl_messages (fst (snd ?r)) =
       [\<lparr>msg_id = ''id0'', msg_session_id = ''s1'', msg_role = ''user'',
         msg_content = ''hello'', msg_created_at = 1\<rparr>,
        \<lparr>msg_id = ''id8'', msg_session_id = ''s1'', msg_role = ''assistant'',
         msg_content = ''draft'', msg_created_at = 9\<rparr>]" by code_simp
  from chat_send_api_messages [OF p] p i m show ?thesis by (intro conjI)
qed

end
